theory Spec2Isabelle
  imports Main "HOL-Library.Word" "HOL-Library.Sublist"
begin

unbundle bit_operations_syntax

section \<open>ERC20WalletProvider: token amounts at the reference precision of eight decimals\<close>

text \<open>
  \<^verbatim>\<open>src/lib/wallet/providers/ERC20WalletProvider.ts\<close>, lines 123-157.

  The two conversions scale by a power of ten in \<^verbatim>\<open>BigInt\<close> arithmetic. A
  \<^verbatim>\<open>bigint\<close> is an \<^typ>\<open>int\<close>. The \<^verbatim>\<open>number\<close> that
  \<^verbatim>\<open>normalizeTokenAmount\<close> returns comes out of \<^verbatim>\<open>Number(bigint)\<close>, which
  yields the nearest IEEE-754 double (53-bit significand, ties to even) and an infinity once
  the rounded magnitude reaches \<open>2 ^ 1024\<close>; it is always integral, so the numbers of this
  section are integers or infinities.
\<close>

datatype number = Num int | PosInfinity | NegInfinity

text \<open>The number of binary digits of a positive integer (0 for everything else).\<close>

function bitLength :: "int \<Rightarrow> nat" where
  "bitLength x = (if x \<le> 0 then 0 else Suc (bitLength (x div 2)))"
  by pat_completeness auto
termination
  by (relation "measure nat") auto

declare bitLength.simps [simp del]

text \<open>
  Rounding of a non-negative integer to 53 significant bits, to nearest, ties to even, with
  an unbounded exponent.
\<close>

definition roundToDouble :: "int \<Rightarrow> int" where
  "roundToDouble x =
     (let n = bitLength x in
      if n \<le> 53 then x
      else
        let s = n - 53;
            q = x div 2 ^ s;
            r = x mod 2 ^ s;
            h = 2 ^ (s - 1);
            q' = (if h < r \<or> (r = h \<and> odd q) then q + 1 else q)
        in q' * 2 ^ s)"

text \<open>\<^verbatim>\<open>Number(x)\<close> for a \<^verbatim>\<open>bigint\<close> \<open>x\<close>.\<close>

definition Number :: "int \<Rightarrow> number" where
  "Number x =
     (let m = roundToDouble \<bar>x\<bar> in
      if 2 ^ 1024 \<le> m then (if 0 \<le> x then PosInfinity else NegInfinity)
      else Num (sgn x * m))"

text \<open>
  \<^verbatim>\<open>a / b\<close> on \<^verbatim>\<open>bigint\<close> truncates towards zero (HOL's \<open>div\<close> rounds down).
  The divisor of this file is a power of ten, never \<^verbatim>\<open>0n\<close>.
\<close>

definition bigint_div :: "int \<Rightarrow> int \<Rightarrow> int" where
  "bigint_div a b = sgn a * sgn b * (\<bar>a\<bar> div \<bar>b\<bar>)"

text \<open>\<^verbatim>\<open>BigInt(10) ** BigInt(Math.abs(this.token.decimals - 8))\<close>\<close>

definition exponent :: "int \<Rightarrow> int" where
  "exponent decimals = 10 ^ nat \<bar>decimals - 8\<bar>"

text \<open>
  \<^verbatim>\<open>formatTokenAmount(amount: number): bigint\<close>. Its first line is
  \<^verbatim>\<open>BigInt(amount)\<close>, which raises a RangeError on every number that is not an
  integer; the amount of the model is the integer that gets past that line. The first
  argument is \<^verbatim>\<open>this.token.decimals\<close>.
\<close>

definition formatTokenAmount :: "int \<Rightarrow> int \<Rightarrow> int" where
  "formatTokenAmount decimals amount =
     (let amountBn = amount in
      if decimals = 8 then amountBn
      else if decimals > 8 then amountBn * exponent decimals
      else bigint_div amountBn (exponent decimals))"

text \<open>\<^verbatim>\<open>normalizeTokenAmount(amount: bigint): number\<close>\<close>

definition normalizeTokenAmount :: "int \<Rightarrow> int \<Rightarrow> number" where
  "normalizeTokenAmount decimals amount =
     (if decimals = 8 then Number amount
      else if decimals > 8 then Number (bigint_div amount (exponent decimals))
      else Number (amount * exponent decimals))"


section \<open>LndWalletProvider: the fee rate of an onchain send\<close>

text \<open>
  \<^verbatim>\<open>src/lib/wallet/providers/LndWalletProvider.ts\<close>. The provider talks to two
  clients, LND and the chain client; every \<^verbatim>\<open>await\<close> is a call that returns a
  value or rejects. The model records the calls in the order they are made and threads the
  rejection: a function returns the calls it made and an error or its result. The clients'
  answers are parameters.
\<close>

text \<open>
  A fee rate is a JavaScript number. What \<^verbatim>\<open>satPerVbyte || ...\<close> asks of it is
  whether it is falsy, and the falsy numbers are 0 and NaN: a fee rate is NaN or a value
  of a type with a zero.
\<close>

datatype 'n js_number = Rate 'n | NaN

definition falsy :: "('n::zero) js_number \<Rightarrow> bool" where
  "falsy x = (case x of NaN \<Rightarrow> True | Rate v \<Rightarrow> v = 0)"

datatype rpc_error = Rejected string

datatype 'n client_call =
    LndGetInfo
  | ChainEstimateFee
  | LndSendCoins string int 'n string
  | LndSweepWallet string 'n string
  | ChainGetRawTransactionVerbose string
  | LndGetOnchainTransactions int

record ScriptPubKey =
  spk_address :: "string option"
  spk_addresses :: "string list option"

record Output =
  out_n :: int
  out_scriptPubKey :: ScriptPubKey

record RawTransaction =
  raw_vout :: "Output list"
  raw_hex :: string

record LndTransaction =
  txHash :: string
  totalFees :: int

text \<open>
  \<^verbatim>\<open>SentTransaction\<close>; the parsed \<^verbatim>\<open>Transaction.fromHex(rawTransaction.hex)\<close> is
  represented by the hex it was parsed from.
\<close>

record SentTransaction =
  sent_fee :: int
  sent_vout :: int
  sent_transactionId :: string
  sent_transaction :: string

record 'n clients =
  getInfo :: "rpc_error + int"
  estimateFee :: "rpc_error + 'n"
  sendCoins :: "string \<Rightarrow> int \<Rightarrow> 'n \<Rightarrow> string \<Rightarrow> rpc_error + string"
  lnd_sweepWallet :: "string \<Rightarrow> 'n \<Rightarrow> string \<Rightarrow> rpc_error + string"
  getRawTransactionVerbose :: "string \<Rightarrow> rpc_error + RawTransaction"
  getOnchainTransactions :: "int \<Rightarrow> rpc_error + LndTransaction list"
  fromHex :: "string \<Rightarrow> rpc_error + string"

text \<open>One awaited call, and sequencing: what follows an \<^verbatim>\<open>await\<close> runs only on a value.\<close>

definition call :: "'c \<Rightarrow> 'e + 'a \<Rightarrow> 'c list \<times> ('e + 'a)" where
  "call c r = ([c], r)"

definition andThen :: "'c list \<times> ('e + 'a) \<Rightarrow> ('a \<Rightarrow> 'c list \<times> ('e + 'b)) \<Rightarrow> 'c list \<times> ('e + 'b)" where
  "andThen m f =
     (case m of
        (calls, Inl e) \<Rightarrow> (calls, Inl e)
      | (calls, Inr x) \<Rightarrow> (case f x of (calls', r) \<Rightarrow> (calls @ calls', r)))"

text \<open>
  \<^verbatim>\<open>return satPerVbyte || (await this.chainClient.estimateFee());\<close> with the
  optional parameter \<^verbatim>\<open>satPerVbyte?: number\<close>: the estimate is awaited when
  \<^verbatim>\<open>satPerVbyte\<close> is undefined or a falsy number, and only then.
\<close>

definition getFeePerVbyte ::
  "('n::zero) js_number clients \<Rightarrow> 'n js_number option
     \<Rightarrow> 'n js_number client_call list \<times> (rpc_error + 'n js_number)" where
  "getFeePerVbyte c satPerVbyte =
     (case satPerVbyte of
        None \<Rightarrow> call ChainEstimateFee (estimateFee c)
      | Some v \<Rightarrow> if falsy v then call ChainEstimateFee (estimateFee c) else ([], Inr v))"

text \<open>The loop over \<^verbatim>\<open>rawTransaction.vout\<close>: the last matching output wins.\<close>

definition outputMatches :: "string \<Rightarrow> Output \<Rightarrow> bool" where
  "outputMatches address output =
     (spk_address (out_scriptPubKey output) = Some address \<or>
      (case spk_addresses (out_scriptPubKey output) of
         None \<Rightarrow> False
       | Some addresses \<Rightarrow> address \<in> set addresses))"

definition findVout :: "string \<Rightarrow> Output list \<Rightarrow> int" where
  "findVout address outputs =
     foldl (\<lambda>vout output. if outputMatches address output then out_n output else vout) 0 outputs"

text \<open>The loop over \<^verbatim>\<open>transactionsList\<close>: the first match wins (\<^verbatim>\<open>break\<close>).\<close>

fun findFee :: "string \<Rightarrow> LndTransaction list \<Rightarrow> int" where
  "findFee transactionId [] = 0"
| "findFee transactionId (t # ts) =
     (if txHash t = transactionId then totalFees t else findFee transactionId ts)"

definition handleLndTransaction ::
  "'n clients \<Rightarrow> string \<Rightarrow> string \<Rightarrow> int \<Rightarrow> 'n client_call list \<times> (rpc_error + SentTransaction)" where
  "handleLndTransaction c transactionId address listStartHeight =
     andThen (call (ChainGetRawTransactionVerbose transactionId) (getRawTransactionVerbose c transactionId))
       (\<lambda>rawTransaction.
          let vout = findVout address (raw_vout rawTransaction) in
          andThen (call (LndGetOnchainTransactions listStartHeight) (getOnchainTransactions c listStartHeight))
            (\<lambda>transactionsList.
               let fee = findFee transactionId transactionsList in
               case fromHex c (raw_hex rawTransaction) of
                 Inl e \<Rightarrow> ([], Inl e)
               | Inr transaction \<Rightarrow>
                   ([], Inr \<lparr>sent_fee = fee, sent_vout = vout,
                              sent_transactionId = transactionId,
                              sent_transaction = transaction\<rparr>)))"

definition sendToAddress ::
  "('n::zero) js_number clients \<Rightarrow> string \<Rightarrow> int \<Rightarrow> 'n js_number option \<Rightarrow> string
     \<Rightarrow> 'n js_number client_call list \<times> (rpc_error + SentTransaction)" where
  "sendToAddress c address amount satPerVbyte label =
     andThen (call LndGetInfo (getInfo c))
       (\<lambda>blockHeight.
          andThen (getFeePerVbyte c satPerVbyte)
            (\<lambda>feePerVbyte.
               andThen (call (LndSendCoins address amount feePerVbyte label)
                          (sendCoins c address amount feePerVbyte label))
                 (\<lambda>txid. handleLndTransaction c txid address blockHeight)))"

definition sweepWallet ::
  "('n::zero) js_number clients \<Rightarrow> string \<Rightarrow> 'n js_number option \<Rightarrow> string
     \<Rightarrow> 'n js_number client_call list \<times> (rpc_error + SentTransaction)" where
  "sweepWallet c address satPerVbyte label =
     andThen (call LndGetInfo (getInfo c))
       (\<lambda>blockHeight.
          andThen (getFeePerVbyte c satPerVbyte)
            (\<lambda>feePerVbyte.
               andThen (call (LndSweepWallet address feePerVbyte label)
                          (lnd_sweepWallet c address feePerVbyte label))
                 (\<lambda>txid. handleLndTransaction c txid address blockHeight)))"

text \<open>The fee rates that a sequence of calls hands to LND, in order.\<close>

fun feeRatePassed :: "'n client_call \<Rightarrow> 'n option" where
  "feeRatePassed (LndSendCoins address amount feePerVbyte label) = Some feePerVbyte"
| "feeRatePassed (LndSweepWallet address feePerVbyte label) = Some feePerVbyte"
| "feeRatePassed other = None"

definition feeRatesPassedToLnd :: "'n client_call list \<Rightarrow> 'n list" where
  "feeRatesPassedToLnd calls = List.map_filter feeRatePassed calls"

text \<open>Clients for the examples: a reachable LND at height 800, an estimate of 3 sat/vbyte.\<close>

definition demoClients :: "int js_number clients" where
  "demoClients =
     \<lparr>getInfo = Inr 800,
      estimateFee = Inr (Rate 3),
      sendCoins = (\<lambda>address amount feePerVbyte label. Inr ''txid-send''),
      lnd_sweepWallet = (\<lambda>address feePerVbyte label. Inr ''txid-sweep''),
      getRawTransactionVerbose =
        (\<lambda>txid. Inr \<lparr>raw_vout =
                       [\<lparr>out_n = 0, out_scriptPubKey = \<lparr>spk_address = Some ''change'', spk_addresses = None\<rparr>\<rparr>,
                        \<lparr>out_n = 1, out_scriptPubKey = \<lparr>spk_address = Some ''bcrt1dest'', spk_addresses = None\<rparr>\<rparr>],
                     raw_hex = ''0200''\<rparr>),
      getOnchainTransactions =
        (\<lambda>height. Inr [\<lparr>txHash = ''txid-send'', totalFees = 420\<rparr>]),
      fromHex = (\<lambda>hex. Inr hex)\<rparr>"


section \<open>ReverseRoutingHints: the hints of a reverse swap\<close>

text \<open>
  \<^verbatim>\<open>src/lib/wallet/Errors.ts\<close>, lines 297-487 (the class
  \<^verbatim>\<open>ReverseRoutingHints\<close>). A \<^verbatim>\<open>Buffer\<close> is a list of bytes; a string is the
  list of its UTF-8 bytes, so \<^verbatim>\<open>Buffer.from(userAddress, 'utf-8')\<close> reads the characters
  as bytes. Amounts are satoshi counts: integers, on which the subtraction of JavaScript
  numbers is the subtraction of integers as long as they stay below 2 to the power 53.
\<close>

type_synonym buffer = "8 word list"

definition utf8 :: "string \<Rightarrow> buffer" where
  "utf8 s = map (\<lambda>c. of_nat (of_char c)) s"

text \<open>
  The errors that \<^verbatim>\<open>getHints\<close> throws: the four of \<^verbatim>\<open>Errors\<close> it names, the
  TypeError of reading a property of \<^verbatim>\<open>undefined\<close> behind a non-null assertion, and
  the error that \<^verbatim>\<open>ECPair.fromPublicKey\<close> or \<^verbatim>\<open>verifySchnorr\<close> throws on a
  malformed public key or signature, which nothing in the class catches.
\<close>

datatype hint_error =
    INVALID_ADDRESS
  | INVALID_ADDRESS_SIGNATURE
  | PAYEE_MISSING_FROM_INVOICE
  | INVALID_DESCRIPTION_HASH
  | TypeError
  | CryptoError

record HopHint =
  nodeId :: string
  chanId :: "64 word"
  feeBaseMsat :: int
  cltvExpiryDelta :: int
  feeProportionalMillionths :: int

record SwapHints =
  invoiceMemo :: "string option"
  invoiceDescriptionHash :: "buffer option"
  receivedAmount :: int
  bip21Params :: "string option"
  routingHint :: "HopHint list list option"

text \<open>The two fields of a decoded BOLT12 invoice that \<^verbatim>\<open>getHints\<close> reads.\<close>

record DecodedInvoice =
  description :: "string option"
  payee :: "buffer option"

text \<open>
  The \<^verbatim>\<open>args\<close> of \<^verbatim>\<open>getHints\<close>; \<^verbatim>\<open>invoice\<close> holds
  \<^verbatim>\<open>args.invoice.decoded\<close>. \<^verbatim>\<open>SwapVersion\<close> is a numeric enum.
\<close>

record HintArgs =
  memo :: "string option"
  userAddress :: "string option"
  version :: nat
  onchainAmount :: int
  claimPublicKey :: "buffer option"
  descriptionHash :: "buffer option"
  userAddressSignature :: "buffer option"
  invoice :: "DecodedInvoice option"

text \<open>
  What the class is constructed with and what it imports, as parameters:
  \<^item> \<open>minerFees\<close>: \<^verbatim>\<open>rateProvider.feeProvider.minerFees\<close>, for a symbol and a swap
    version the fee \<^verbatim>\<open>.reverse.claim\<close>;
  \<^item> \<open>wallets\<close>: \<^verbatim>\<open>walletManager.wallets\<close>, for a symbol whether
    \<^verbatim>\<open>decodeAddress\<close> returns on an address (or throws);
  \<^item> \<open>encodeParams\<close>: \<^verbatim>\<open>paymentRequestUtils.encodeParams\<close>, whose result is
    taken to be a string;
  \<^item> \<open>getSwapMemo\<close>: \<^verbatim>\<open>getSwapMemo(symbol, SwapType.ReverseSubmarine)\<close>;
  \<^item> \<open>getHexString\<close>, \<open>sha256\<close> (\<^verbatim>\<open>crypto.sha256\<close>) and \<open>verifySchnorr\<close>
    (\<^verbatim>\<open>ECPair.fromPublicKey(publicKey).verifySchnorr(hash, signature)\<close>, with the
    public key first): the verdict of the verification, or nothing when the library
    throws, as it does on a buffer that is not a public key and on a signature that is not
    of 64 bytes.
\<close>

record HintsEnv =
  minerFees :: "string \<rightharpoonup> (nat \<rightharpoonup> int)"
  wallets :: "string \<rightharpoonup> (string \<Rightarrow> bool)"
  encodeParams :: "string \<Rightarrow> int \<Rightarrow> string option \<Rightarrow> string"
  getSwapMemo :: "string \<Rightarrow> string"
  getHexString :: "buffer \<Rightarrow> string"
  sha256 :: "buffer \<Rightarrow> buffer"
  verifySchnorr :: "buffer \<Rightarrow> buffer \<Rightarrow> buffer \<Rightarrow> bool option"

text \<open>
  Modelled from the spec: \<^verbatim>\<open>transactionToLndScid\<close> of
  \<^verbatim>\<open>lib/lightning/ChannelUtils.ts\<close>, which is not among the sources. The spec: a
  short-channel-id is a "64-bit identifier packing (block, tx-index, output-index)", "packed
  per BOLT11": the block height in the upper three bytes, the transaction index in the next
  three, the output index in the lower two.
\<close>

definition transactionToLndScid :: "nat \<Rightarrow> nat \<Rightarrow> nat \<Rightarrow> 64 word" where
  "transactionToLndScid blockHeight transactionIndex outputIndex =
     push_bit 40 (word_of_nat blockHeight) OR push_bit 16 (word_of_nat transactionIndex)
       OR word_of_nat outputIndex"

definition routingHintChanId :: "64 word" where
  "routingHintChanId = transactionToLndScid 542409 1308 0"

definition checkDescriptionHash :: "buffer option \<Rightarrow> hint_error + buffer option" where
  "checkDescriptionHash hash =
     (case hash of
        None \<Rightarrow> Inr None
      | Some h \<Rightarrow> if length h \<noteq> 32 then Inl INVALID_DESCRIPTION_HASH else Inr (Some h))"

text \<open>
  \<^verbatim>\<open>verifyAddressSignature\<close> has no \<^verbatim>\<open>try\<close>: it returns the verdict, or the
  library's error goes up to the caller.
\<close>

definition verifyAddressSignature ::
  "HintsEnv \<Rightarrow> buffer \<Rightarrow> string \<Rightarrow> buffer \<Rightarrow> hint_error + bool" where
  "verifyAddressSignature env publicKey address signature =
     (case verifySchnorr env publicKey (sha256 env (utf8 address)) signature of
        None \<Rightarrow> Inl CryptoError
      | Some valid \<Rightarrow> Inr valid)"

definition encodeRoutingHint ::
  "HintsEnv \<Rightarrow> buffer option \<Rightarrow> string \<Rightarrow> buffer \<Rightarrow> hint_error + HopHint list list option" where
  "encodeRoutingHint env claimKey address signature =
     (case claimKey of
        None \<Rightarrow> Inr None
      | Some key \<Rightarrow>
          (case verifyAddressSignature env key address signature of
             Inl e \<Rightarrow> Inl e
           | Inr valid \<Rightarrow>
               if \<not> valid
               then Inl INVALID_ADDRESS_SIGNATURE
               else Inr (Some [[\<lparr>nodeId = getHexString env key,
                                  chanId = routingHintChanId,
                                  feeBaseMsat = 0,
                                  cltvExpiryDelta = 81,
                                  feeProportionalMillionths = 21\<rparr>]])))"

definition verifyBolt12Invoice :: "HintsEnv \<Rightarrow> DecodedInvoice \<Rightarrow> string \<Rightarrow> buffer \<Rightarrow> hint_error + unit" where
  "verifyBolt12Invoice env decoded address signature =
     (case payee decoded of
        None \<Rightarrow> Inl PAYEE_MISSING_FROM_INVOICE
      | Some key \<Rightarrow>
          (case verifyAddressSignature env key address signature of
             Inl e \<Rightarrow> Inl e
           | Inr valid \<Rightarrow> if \<not> valid then Inl INVALID_ADDRESS_SIGNATURE else Inr ()))"

text \<open>
  \<^verbatim>\<open>minerFees.get(symbol)![version].reverse.claim\<close>: a symbol or a version without an
  entry makes the property read raise.
\<close>

definition claimMinerFee :: "HintsEnv \<Rightarrow> string \<Rightarrow> nat \<Rightarrow> hint_error + int" where
  "claimMinerFee env symbol v =
     (case minerFees env symbol of
        None \<Rightarrow> Inl TypeError
      | Some fees \<Rightarrow> (case fees v of None \<Rightarrow> Inl TypeError | Some claim \<Rightarrow> Inr claim))"

text \<open>
  The \<^verbatim>\<open>try\<close> block around \<^verbatim>\<open>wallets.get(symbol)!.decodeAddress(userAddress)\<close>:
  a missing wallet raises inside it as a failing decode does.
\<close>

definition decodesAddress :: "HintsEnv \<Rightarrow> string \<Rightarrow> string \<Rightarrow> bool" where
  "decodesAddress env symbol address =
     (case wallets env symbol of None \<Rightarrow> False | Some decodeAddress \<Rightarrow> decodeAddress address)"

text \<open>
  \<^verbatim>\<open>getHints(sendingCurrency, args)\<close>, statement by statement; of the currency only
  its symbol is read.
\<close>

definition getHints :: "HintsEnv \<Rightarrow> string \<Rightarrow> HintArgs \<Rightarrow> hint_error + SwapHints" where
  "getHints env symbol args =
     (let isBolt12 = (invoice args \<noteq> None) in
      case (if \<not> isBolt12 then checkDescriptionHash (descriptionHash args) else Inr None) of
        Inl e \<Rightarrow> Inl e
      | Inr invoiceDescriptionHash' \<Rightarrow>
          let invoiceMemo' =
                (if \<not> isBolt12
                 then (case memo args of Some m \<Rightarrow> Some m | None \<Rightarrow> Some (getSwapMemo env symbol))
                 else (case invoice args of None \<Rightarrow> None | Some decoded \<Rightarrow> description decoded))
          in
          case claimMinerFee env symbol (version args) of
            Inl e \<Rightarrow> Inl e
          | Inr claim \<Rightarrow>
              let receivedAmount' = onchainAmount args - claim in
              case (userAddress args, userAddressSignature args) of
                (Some address, Some signature) \<Rightarrow>
                  if \<not> decodesAddress env symbol address then Inl INVALID_ADDRESS
                  else
                    let bip21Params' = encodeParams env symbol receivedAmount' (memo args) in
                    (case (case invoice args of
                             Some decoded \<Rightarrow>
                               (case verifyBolt12Invoice env decoded address signature of
                                  Inl e \<Rightarrow> Inl e
                                | Inr u \<Rightarrow> Inr None)
                           | None \<Rightarrow>
                               encodeRoutingHint env (claimPublicKey args) address signature) of
                       Inl e \<Rightarrow> Inl e
                     | Inr routingHint' \<Rightarrow>
                         Inr \<lparr>invoiceMemo = invoiceMemo',
                              invoiceDescriptionHash = invoiceDescriptionHash',
                              receivedAmount = receivedAmount',
                              bip21Params = Some bip21Params',
                              routingHint = routingHint'\<rparr>)
              | _ \<Rightarrow>
                  Inr \<lparr>invoiceMemo = invoiceMemo',
                       invoiceDescriptionHash = invoiceDescriptionHash',
                       receivedAmount = receivedAmount',
                       bip21Params = None,
                       routingHint = None\<rparr>)"

text \<open>
  An environment and requests for the examples: two currencies with claim fees for the
  swap versions 0 and 1, each with a wallet that decodes one address, and a toy signature
  scheme. Its public keys are 33 bytes that begin with 2 or 3, its signatures 64 bytes; the
  signature of a hash under a key is the hash followed by the key without its first byte;
  on any other key or signature the verification throws.
\<close>

definition hexDigit :: "nat \<Rightarrow> char" where
  "hexDigit d = ''0123456789abcdef'' ! d"

definition hexString :: "buffer \<Rightarrow> string" where
  "hexString b = concat (map (\<lambda>w. [hexDigit (unat w div 16), hexDigit (unat w mod 16)]) b)"

definition demoVerifySchnorr :: "buffer \<Rightarrow> buffer \<Rightarrow> buffer \<Rightarrow> bool option" where
  "demoVerifySchnorr publicKey hash signature =
     (if length publicKey = 33 \<and> (hd publicKey = 2 \<or> hd publicKey = 3)
         \<and> length hash = 32 \<and> length signature = 64
      then Some (signature = hash @ tl publicKey)
      else None)"

definition demoEnv :: HintsEnv where
  "demoEnv =
     \<lparr>minerFees = [''BTC'' \<mapsto> [0 \<mapsto> 428, 1 \<mapsto> 276], ''L-BTC'' \<mapsto> [0 \<mapsto> 45, 1 \<mapsto> 20]],
      wallets = [''BTC'' \<mapsto> (\<lambda>address. address = ''bcrt1quser''),
                 ''L-BTC'' \<mapsto> (\<lambda>address. address = ''el1quser'')],
      encodeParams = (\<lambda>symbol amount label. ''amount'' @ (case label of None \<Rightarrow> [] | Some l \<Rightarrow> ''&label='' @ l)),
      getSwapMemo = (\<lambda>symbol. ''Send to '' @ symbol @ '' address''),
      getHexString = hexString,
      sha256 = (\<lambda>b. take 32 (b @ replicate 32 0)),
      verifySchnorr = demoVerifySchnorr\<rparr>"

definition demoKey :: buffer where
  "demoKey = 2 # replicate 32 7"

definition demoSignature :: "buffer \<Rightarrow> buffer" where
  "demoSignature key = sha256 demoEnv (utf8 ''bcrt1quser'') @ tl key"

text \<open>A signature of 64 bytes that is nobody's signature of the address.\<close>

definition demoBadSignature :: buffer where
  "demoBadSignature = replicate 64 0"

text \<open>A BOLT11 request with a claim key, a decodable address and its signature.\<close>

definition demoArgs :: HintArgs where
  "demoArgs =
     \<lparr>memo = None,
      userAddress = Some ''bcrt1quser'',
      version = 1,
      onchainAmount = 500000,
      claimPublicKey = Some demoKey,
      descriptionHash = None,
      userAddressSignature = Some (demoSignature demoKey),
      invoice = None\<rparr>"

text \<open>The same request for swap version 0, and one without address and signature.\<close>

definition demoArgsLegacy :: HintArgs where
  "demoArgsLegacy = demoArgs\<lparr>version := 0\<rparr>"

definition demoArgsPlain :: HintArgs where
  "demoArgsPlain = demoArgs\<lparr>userAddress := None, userAddressSignature := None\<rparr>"

text \<open>A BOLT12 request: the invoice's payee key has signed the address.\<close>

definition demoArgsBolt12 :: HintArgs where
  "demoArgsBolt12 =
     demoArgs\<lparr>claimPublicKey := None,
              invoice := Some \<lparr>description = Some ''offer'', payee = Some demoKey\<rparr>\<rparr>"

text \<open>The same BOLT11 request with a description hash of one byte.\<close>

definition demoArgsShortHash :: HintArgs where
  "demoArgsShortHash = demoArgs\<lparr>descriptionHash := Some [0]\<rparr>"



text \<open>
  BOLT12 requests with a signature that does not verify, with an invoice without a payee,
  and with a signature of no bytes.
\<close>

definition demoArgsBolt12BadSignature :: HintArgs where
  "demoArgsBolt12BadSignature = demoArgsBolt12\<lparr>userAddressSignature := Some demoBadSignature\<rparr>"

definition demoArgsBolt12NoPayee :: HintArgs where
  "demoArgsBolt12NoPayee =
     demoArgsBolt12\<lparr>invoice := Some \<lparr>description = Some ''offer'', payee = None\<rparr>\<rparr>"

definition demoArgsBolt12EmptySignature :: HintArgs where
  "demoArgsBolt12EmptySignature = demoArgsBolt12\<lparr>userAddressSignature := Some []\<rparr>"

text \<open>
  A BOLT12 request whose address no wallet decodes and whose signature does not verify.
\<close>

definition demoArgsBolt12Undecodable :: HintArgs where
  "demoArgsBolt12Undecodable =
     demoArgsBolt12\<lparr>userAddress := Some ''garbage'',
                    userAddressSignature := Some demoBadSignature\<rparr>"


section \<open>ChannelNursery\<close>

text \<open>
  \<^verbatim>\<open>lib/swap/ChannelNursery.ts\<close> is not among the sources; its test is
  (\<^verbatim>\<open>src/unnamed/part_002\<close>, lines 791-1482). The three operations below are
  modelled from section 4.8 of the spec, and each is compared with what the test observes.
\<close>

text \<open>\<^verbatim>\<open>String.prototype.includes\<close>: the second string occurs in the first.\<close>

primrec str_includes :: "string \<Rightarrow> string \<Rightarrow> bool" where
  "str_includes [] sub = (sub = [])"
| "str_includes (c # cs) sub = (prefix sub (c # cs) \<or> str_includes cs sub)"

text \<open>The first string holds an occurrence of \<open>a\<close> and, after it, one of \<open>b\<close>.\<close>

primrec includesThen :: "string \<Rightarrow> string \<Rightarrow> string \<Rightarrow> bool" where
  "includesThen [] a b = (a = [] \<and> b = [])"
| "includesThen (c # cs) a b =
     ((prefix a (c # cs) \<and> str_includes (drop (length a) (c # cs)) b) \<or> includesThen cs a b)"

text \<open>The status of a ChannelCreation (section 3 of the spec).\<close>

datatype ChannelCreationStatus = Attempted | Created | Settled | Abandoned

subsection \<open>settleChannelWrapper\<close>

text \<open>What \<^verbatim>\<open>settleChannelWrapper\<close> and its scheduled retries do, as events.\<close>

datatype settle_event =
    SettleChannelCalled string
  | RetriesSet string nat
  | RetriesDeleted string
  | RetryScheduled string nat
  | LockAcquired string
  | LockReleased string

definition channelSettleLock :: string where
  "channelSettleLock = ''channelSettle''"

definition maxSettleRetries :: nat where
  "maxSettleRetries = 4"

text \<open>
  Modelled from the spec: one call of \<^verbatim>\<open>ChannelNursery.settleChannelWrapper\<close>, which
  is missing. The spec (4.8, step 3): "The settle path is guarded by a single-flight lock
  keyed \<^verbatim>\<open>channelSettle\<close>; retries use an exponential schedule (1x, 2x, 4x of
  \<^verbatim>\<open>base-retry\<close>, max 4 attempts) tracked per swap-id."

  The call runs \<^verbatim>\<open>settleChannel\<close> and, when that did not settle, doubles the swap's
  entry of \<^verbatim>\<open>settleRetries\<close> (1 for a swap without an entry); up to 4 the entry is
  stored and a retry is scheduled after that multiple of the retry timeout, beyond it the
  entry is deleted and nothing is scheduled. A settled swap's entry is deleted. The
  arguments are what \<^verbatim>\<open>settleChannel\<close> returned, the id of the swap, the retry
  timeout and \<^verbatim>\<open>settleRetries\<close>; the result is the new \<^verbatim>\<open>settleRetries\<close>,
  the events, and whether a retry is scheduled.
\<close>

definition settleChannelWrapperPass ::
  "bool \<Rightarrow> string \<Rightarrow> nat \<Rightarrow> (string \<rightharpoonup> nat) \<Rightarrow> (string \<rightharpoonup> nat) \<times> settle_event list \<times> bool" where
  "settleChannelWrapperPass settled swapId retryTimeout settleRetries =
     (if settled
      then (settleRetries(swapId := None),
            [SettleChannelCalled swapId, RetriesDeleted swapId],
            False)
      else
        let retries = (case settleRetries swapId of None \<Rightarrow> 1 | Some r \<Rightarrow> 2 * r) in
        if retries \<le> maxSettleRetries
        then (settleRetries(swapId \<mapsto> retries),
              [SettleChannelCalled swapId, RetriesSet swapId retries,
               RetryScheduled swapId (retryTimeout * retries)],
              True)
        else (settleRetries(swapId := None),
              [SettleChannelCalled swapId, RetriesDeleted swapId],
              False))"

text \<open>
  Modelled from the spec: the scheduled retries of the missing
  \<^verbatim>\<open>settleChannelWrapper\<close>. A retry takes the lock \<^verbatim>\<open>channelSettle\<close>, calls
  \<^verbatim>\<open>settleChannelWrapper\<close> again and releases the lock; the retry that this call
  schedules comes after it. (The test holds the lock while the retries are due, and each
  retry runs once the test lets go of it.) The list holds what the successive calls of
  \<^verbatim>\<open>settleChannel\<close> return; a scheduled retry whose outcome the list no longer holds
  has not run yet.
\<close>

fun settleRetry ::
  "bool list \<Rightarrow> string \<Rightarrow> nat \<Rightarrow> (string \<rightharpoonup> nat) \<Rightarrow> (string \<rightharpoonup> nat) \<times> settle_event list" where
  "settleRetry [] swapId retryTimeout settleRetries = (settleRetries, [])"
| "settleRetry (settled # later) swapId retryTimeout settleRetries =
     (case settleChannelWrapperPass settled swapId retryTimeout settleRetries of
        (settleRetries', events, scheduled) \<Rightarrow>
          if scheduled
          then (case settleRetry later swapId retryTimeout settleRetries' of
                  (settleRetries'', events') \<Rightarrow>
                    (settleRetries'',
                     LockAcquired channelSettleLock # events @ LockReleased channelSettleLock # events'))
          else (settleRetries',
                LockAcquired channelSettleLock # events @ [LockReleased channelSettleLock]))"

text \<open>
  Modelled from the spec: a call of the missing \<^verbatim>\<open>settleChannelWrapper\<close> together
  with the retries it sets off. The call itself does not take the lock (in the test it
  returns while the test holds the lock); its callers do.
\<close>

definition settleChannelWrapper ::
  "bool list \<Rightarrow> string \<Rightarrow> nat \<Rightarrow> (string \<rightharpoonup> nat) \<Rightarrow> (string \<rightharpoonup> nat) \<times> settle_event list" where
  "settleChannelWrapper outcomes swapId retryTimeout settleRetries =
     (case outcomes of
        [] \<Rightarrow> (settleRetries, [])
      | settled # later \<Rightarrow>
          (case settleChannelWrapperPass settled swapId retryTimeout settleRetries of
             (settleRetries', events, scheduled) \<Rightarrow>
               if scheduled
               then (case settleRetry later swapId retryTimeout settleRetries' of
                       (settleRetries'', events') \<Rightarrow> (settleRetries'', events @ events'))
               else (settleRetries', events)))"

text \<open>
  What a run shows: the attempts made, the values the retry counter was set to, and the
  delays of the scheduled retries.
\<close>

definition settleAttempts :: "settle_event list \<Rightarrow> nat" where
  "settleAttempts events =
     length (filter (\<lambda>e. case e of SettleChannelCalled i \<Rightarrow> True | _ \<Rightarrow> False) events)"

definition retryCounterValues :: "settle_event list \<Rightarrow> nat list" where
  "retryCounterValues events =
     List.map_filter (\<lambda>e. case e of RetriesSet i n \<Rightarrow> Some n | _ \<Rightarrow> None) events"

definition retryDelays :: "settle_event list \<Rightarrow> nat list" where
  "retryDelays events =
     List.map_filter (\<lambda>e. case e of RetryScheduled i d \<Rightarrow> Some d | _ \<Rightarrow> None) events"

text \<open>
  Events that all happen under the lock \<^verbatim>\<open>channelSettle\<close>: each is between taking
  the lock and releasing it, and the lock is never taken while it is held. The flag says
  whether the lock is held.
\<close>

fun underLock :: "bool \<Rightarrow> settle_event list \<Rightarrow> bool" where
  "underLock held [] = (\<not> held)"
| "underLock held (LockAcquired l # es) = (\<not> held \<and> l = channelSettleLock \<and> underLock True es)"
| "underLock held (LockReleased l # es) = (held \<and> l = channelSettleLock \<and> underLock False es)"
| "underLock held (e # es) = (held \<and> underLock held es)"

subsection \<open>openChannel: the classification of its errors\<close>

text \<open>
  The \<^verbatim>\<open>catch\<close> block of \<^verbatim>\<open>ChannelNursery.openChannel\<close> is missing. The spec
  (4.8, step 4): "Error classification for \<^verbatim>\<open>openChannel\<close>: strings matching "wallet
  is fully synced" or "Synchronizing blockchain" -> retry with linear backoff; "peer ... is
  not online" -> attempt \<^verbatim>\<open>connectByPublicKey\<close> then retry once; other errors -> fail
  terminally and mark \<^verbatim>\<open>Abandoned\<close>."
\<close>

datatype open_error_class = NodeSyncing | PeerNotOnline | OtherError

datatype open_action = WaitBackoff | ConnectByPublicKey | RetryOpenChannel | SetAbandoned

text \<open>
  Modelled from the spec: the first class of errors of the missing \<^verbatim>\<open>openChannel\<close>,
  "strings matching "wallet is fully synced" or "Synchronizing blockchain"".
\<close>

definition isSyncingError :: "string \<Rightarrow> bool" where
  "isSyncingError e =
     (str_includes e ''wallet is fully synced'' \<or> str_includes e ''Synchronizing blockchain'')"

text \<open>
  Modelled from the spec: the second class of errors of the missing \<^verbatim>\<open>openChannel\<close>,
  "peer ... is not online", the dots standing for any text.
\<close>

definition isPeerNotOnlineError :: "string \<Rightarrow> bool" where
  "isPeerNotOnlineError e = includesThen e ''peer '' '' is not online''"

text \<open>
  Modelled from the spec: the classification of the missing \<^verbatim>\<open>openChannel\<close>, the
  classes tried in the order in which the spec lists them.
\<close>

definition classifyOpenChannelError :: "string \<Rightarrow> open_error_class" where
  "classifyOpenChannelError e =
     (if isSyncingError e then NodeSyncing
      else if isPeerNotOnlineError e then PeerNotOnline
      else OtherError)"

text \<open>
  Modelled from the spec: what the missing \<^verbatim>\<open>openChannel\<close> does after its call of
  LND has thrown the message \<open>e\<close>, and the status of the ChannelCreation after it. A retry
  is one further call of \<^verbatim>\<open>openChannel\<close>; when it runs is left open.
\<close>

definition openChannelFailed ::
  "string \<Rightarrow> ChannelCreationStatus \<Rightarrow> open_action list \<times> ChannelCreationStatus" where
  "openChannelFailed e status =
     (case classifyOpenChannelError e of
        NodeSyncing \<Rightarrow> ([WaitBackoff, RetryOpenChannel], status)
      | PeerNotOnline \<Rightarrow> ([ConnectByPublicKey, RetryOpenChannel], status)
      | OtherError \<Rightarrow> ([SetAbandoned], Abandoned))"

subsection \<open>settleChannel\<close>

text \<open>The calls of \<^verbatim>\<open>settleChannel\<close>: the payment, and the update of the ChannelCreation.\<close>

datatype settle_call = SettleSwap | SetSettled

text \<open>
  Modelled from the spec: \<^verbatim>\<open>ChannelNursery.settleChannel\<close>, which is missing. The
  spec (4.8): "Settlement idempotency: "invoice is already paid" is treated as success";
  (8, scenario 6): "Second settlement attempt on an already-paid invoice returns success and
  marks ChannelCreation \<^verbatim>\<open>Settled\<close> without re-invoking payment."

  The first argument is what the injected \<^verbatim>\<open>settleSwap\<close> (the payment of the invoice
  through the channel) does: it returns, or throws a message. The result is the returned
  flag, the status of the ChannelCreation afterwards, and the calls made.
\<close>

definition settleChannel ::
  "string option \<Rightarrow> ChannelCreationStatus \<Rightarrow> bool \<times> ChannelCreationStatus \<times> settle_call list" where
  "settleChannel settleSwapError status =
     (case settleSwapError of
        None \<Rightarrow> (True, Settled, [SettleSwap, SetSettled])
      | Some e \<Rightarrow>
          if str_includes e ''invoice is already paid''
          then (True, Settled, [SettleSwap, SetSettled])
          else (False, status, [SettleSwap]))"


section \<open>Properties of the token amount conversions\<close>

lemma bitLength_le_iff: "bitLength x \<le> k \<longleftrightarrow> x < 2 ^ k"
proof (induction k arbitrary: x)
  case 0
  show ?case
    by (subst bitLength.simps) auto
next
  case (Suc k)
  have "bitLength x \<le> Suc k \<longleftrightarrow> x \<le> 0 \<or> bitLength (x div 2) \<le> k"
    by (subst bitLength.simps) simp
  also have "\<dots> \<longleftrightarrow> x \<le> 0 \<or> x div 2 < 2 ^ k"
    by (simp only: Suc.IH)
  also have "\<dots> \<longleftrightarrow> x < 2 ^ Suc k"
  proof -
    have "0 < m \<Longrightarrow> (x \<le> 0 \<or> x div 2 < m) = (x < 2 * m)" for m :: int
      by arith
    from this [of "2 ^ k"] show ?thesis
      by simp
  qed
  finally show ?case .
qed

lemma roundToDouble_small: "x < 2 ^ 53 \<Longrightarrow> roundToDouble x = x"
  by (simp add: roundToDouble_def bitLength_le_iff)

text \<open>Below \<open>2 ^ 53\<close> every non-negative integer is a double: \<^verbatim>\<open>Number\<close> is exact.\<close>

lemma Number_exact:
  assumes "0 \<le> x" and "x < 2 ^ 53"
  shows "Number x = Num x"
proof -
  have r: "roundToDouble \<bar>x\<bar> = x"
    using assms by (simp add: roundToDouble_small)
  have "x < (2::int) ^ 1024"
    using assms(2) by (rule less_trans) simp
  moreover have "sgn x * x = x"
    using assms(1) by (cases "x = 0") simp_all
  ultimately show ?thesis
    by (simp add: Number_def r)
qed

lemma bigint_div_nonneg: "0 \<le> a \<Longrightarrow> 0 < b \<Longrightarrow> bigint_div a b = a div b"
  by (cases "a = 0") (simp_all add: bigint_div_def)

text \<open>
  Claim C1, as amended. For a non-negative amount \<open>a\<close> that is a number
  (\<open>Number a = Num a\<close>), formatting and normalising again gives \<open>a\<close> for 8 and for 18
  decimals; for 6 decimals it gives the amount truncated to a multiple of
  \<open>10 ^ (8 - 6)\<close> and then converted by \<^verbatim>\<open>Number\<close>, which is that multiple itself
  whenever \<open>a < 2 ^ 53\<close>. The scaling is integer arithmetic; the only conversion to a
  double is the final \<^verbatim>\<open>Number\<close>.
\<close>

theorem token_amount_round_trip:
  assumes "0 \<le> a" and "Number a = Num a"
  shows "normalizeTokenAmount 8 (formatTokenAmount 8 a) = Num a
       \<and> normalizeTokenAmount 18 (formatTokenAmount 18 a) = Num a
       \<and> normalizeTokenAmount 6 (formatTokenAmount 6 a) = Number ((a div 10 ^ 2) * 10 ^ 2)
       \<and> (a < 2 ^ 53 \<longrightarrow>
            normalizeTokenAmount 6 (formatTokenAmount 6 a) = Num ((a div 10 ^ 2) * 10 ^ 2))"
proof -
  have e18: "exponent 18 = 10 ^ 10" and e6: "exponent 6 = 10 ^ 2"
    by (simp_all add: exponent_def)
  have d8: "normalizeTokenAmount 8 (formatTokenAmount 8 a) = Num a"
    using assms(2) by (simp add: normalizeTokenAmount_def formatTokenAmount_def)
  have "bigint_div (a * 10 ^ 10) (10 ^ 10) = a"
    using assms(1) by (simp add: bigint_div_nonneg)
  then have d18: "normalizeTokenAmount 18 (formatTokenAmount 18 a) = Num a"
    using assms(2) by (simp add: normalizeTokenAmount_def formatTokenAmount_def e18)
  have f6: "formatTokenAmount 6 a = a div 10 ^ 2"
    using assms(1) by (simp add: formatTokenAmount_def e6 bigint_div_nonneg)
  have d6: "normalizeTokenAmount 6 (formatTokenAmount 6 a) = Number ((a div 10 ^ 2) * 10 ^ 2)"
    by (simp only: f6) (simp add: normalizeTokenAmount_def e6)
  have d6': "Number ((a div 10 ^ 2) * 10 ^ 2) = Num ((a div 10 ^ 2) * 10 ^ 2)" if "a < 2 ^ 53"
  proof (rule Number_exact)
    show "0 \<le> a div 10 ^ 2 * 10 ^ 2"
      using assms(1) by simp
    have "a div 10 ^ 2 * 10 ^ 2 \<le> a"
      by simp
    with that show "a div 10 ^ 2 * 10 ^ 2 < 2 ^ 53"
      by linarith
  qed
  show ?thesis
    using d8 d18 d6 d6' by simp
qed

theorem token_amount_round_trip_witness:
  "0 \<le> (123456789 :: int) \<and> Number 123456789 = Num 123456789 \<and> (123456789 :: int) < 2 ^ 53
   \<and> normalizeTokenAmount 8 (formatTokenAmount 8 123456789) = Num 123456789
   \<and> normalizeTokenAmount 18 (formatTokenAmount 18 123456789) = Num 123456789
   \<and> normalizeTokenAmount 6 (formatTokenAmount 6 123456789) = Num 123456700"
proof -
  have p: "0 \<le> (123456789 :: int)" and b: "(123456789 :: int) < 2 ^ 53"
    by simp_all
  have n: "Number 123456789 = Num 123456789"
    using p b by (rule Number_exact)
  have t: "(123456789 div 10 ^ 2) * 10 ^ 2 = (123456700 :: int)"
    by simp
  note T = token_amount_round_trip [OF p n]
  have d8: "normalizeTokenAmount 8 (formatTokenAmount 8 123456789) = Num 123456789"
    by (rule T [THEN conjunct1])
  have d18: "normalizeTokenAmount 18 (formatTokenAmount 18 123456789) = Num 123456789"
    by (rule T [THEN conjunct2, THEN conjunct1])
  have "normalizeTokenAmount 6 (formatTokenAmount 6 123456789)
      = Num ((123456789 div 10 ^ 2) * 10 ^ 2)"
    by (rule T [THEN conjunct2, THEN conjunct2, THEN conjunct2, THEN mp, OF b])
  then have d6: "normalizeTokenAmount 6 (formatTokenAmount 6 123456789) = Num 123456700"
    by (simp only: t)
  from p n b d8 d18 d6 show ?thesis
    by blast
qed

text \<open>
  Claim C1 as stated fails for 6 decimals at the amount \<open>2 ^ 60\<close>, which is a number: the
  truncated multiple of 100 is \<open>2 ^ 60 - 76\<close>, and \<^verbatim>\<open>Number\<close> rounds it to the
  double \<open>2 ^ 60 - 128\<close>.
\<close>

theorem token_amount_round_trip_counterexample:
  "Number 1152921504606846976 = Num 1152921504606846976
   \<and> (1152921504606846976 div 10 ^ 2) * 10 ^ 2 = (1152921504606846900 :: int)
   \<and> normalizeTokenAmount 6 (formatTokenAmount 6 1152921504606846976) = Num 1152921504606846848
   \<and> normalizeTokenAmount 6 (formatTokenAmount 6 1152921504606846976)
       \<noteq> Num ((1152921504606846976 div 10 ^ 2) * 10 ^ 2)"
  by (simp add: normalizeTokenAmount_def formatTokenAmount_def exponent_def bigint_div_def
      Number_def roundToDouble_def bitLength.simps Let_def)

section \<open>Properties of the LND wallet provider\<close>

lemma fst_andThen:
  "fst (andThen m f) =
     (case snd m of Inl e \<Rightarrow> fst m | Inr x \<Rightarrow> fst m @ fst (f x))"
  by (cases m) (auto simp: andThen_def split: sum.splits prod.splits)

lemma fst_call [simp]: "fst (call c r) = [c]"
  by (simp add: call_def)

lemma snd_call [simp]: "snd (call c r) = r"
  by (simp add: call_def)

lemma feeRatesPassedToLnd_Nil [simp]: "feeRatesPassedToLnd [] = []"
  by (simp add: feeRatesPassedToLnd_def List.map_filter_def)

lemma feeRatesPassedToLnd_Cons [simp]:
  "feeRatesPassedToLnd (x # xs) =
     (case feeRatePassed x of
        None \<Rightarrow> feeRatesPassedToLnd xs
      | Some r \<Rightarrow> r # feeRatesPassedToLnd xs)"
  by (simp add: feeRatesPassedToLnd_def List.map_filter_def split: option.splits)

lemma feeRatesPassedToLnd_append [simp]:
  "feeRatesPassedToLnd (xs @ ys) = feeRatesPassedToLnd xs @ feeRatesPassedToLnd ys"
  by (simp add: feeRatesPassedToLnd_def List.map_filter_def)

text \<open>Looking the sent transaction up hands no fee rate to LND and asks for no estimate.\<close>

lemma handleLndTransaction_calls:
  "feeRatesPassedToLnd (fst (handleLndTransaction c t a h)) = []
   \<and> ChainEstimateFee \<notin> set (fst (handleLndTransaction c t a h))"
  by (auto simp: handleLndTransaction_def fst_andThen Let_def split: sum.splits)

lemma falsy_cases: "falsy x \<longleftrightarrow> x = Rate 0 \<or> x = NaN"
  by (auto simp: falsy_def split: js_number.splits)

lemma getFeePerVbyte_falsy:
  "satPerVbyte = None \<or> satPerVbyte = Some (Rate 0) \<or> satPerVbyte = Some NaN \<Longrightarrow>
     getFeePerVbyte c satPerVbyte = ([ChainEstimateFee], estimateFee c)"
  by (auto simp: getFeePerVbyte_def call_def falsy_def)

lemma getFeePerVbyte_truthy:
  "v \<noteq> 0 \<Longrightarrow> getFeePerVbyte c (Some (Rate v)) = ([], Inr (Rate v))"
  by (simp add: getFeePerVbyte_def falsy_def)

lemma sendToAddress_demo:
  "sendToAddress demoClients ''bcrt1dest'' 1000 (Some (Rate 0)) ''label'' =
     ([LndGetInfo, ChainEstimateFee, LndSendCoins ''bcrt1dest'' 1000 (Rate 3) ''label'',
       ChainGetRawTransactionVerbose ''txid-send'', LndGetOnchainTransactions 800],
      Inr \<lparr>sent_fee = 420, sent_vout = 1, sent_transactionId = ''txid-send'',
           sent_transaction = ''0200''\<rparr>)"
  by (simp add: sendToAddress_def demoClients_def andThen_def call_def getFeePerVbyte_def
      handleLndTransaction_def findVout_def outputMatches_def falsy_def)

lemma sendToAddress_demo_NaN:
  "sendToAddress demoClients ''bcrt1dest'' 1000 (Some NaN) ''label'' =
     ([LndGetInfo, ChainEstimateFee, LndSendCoins ''bcrt1dest'' 1000 (Rate 3) ''label'',
       ChainGetRawTransactionVerbose ''txid-send'', LndGetOnchainTransactions 800],
      Inr \<lparr>sent_fee = 420, sent_vout = 1, sent_transactionId = ''txid-send'',
           sent_transaction = ''0200''\<rparr>)"
  by (simp add: sendToAddress_def demoClients_def andThen_def call_def getFeePerVbyte_def
      handleLndTransaction_def findVout_def outputMatches_def falsy_def)

lemma sweepWallet_demo_NaN:
  "sweepWallet demoClients ''bcrt1dest'' (Some NaN) ''label'' =
     ([LndGetInfo, ChainEstimateFee, LndSweepWallet ''bcrt1dest'' (Rate 3) ''label'',
       ChainGetRawTransactionVerbose ''txid-sweep'', LndGetOnchainTransactions 800],
      Inr \<lparr>sent_fee = 0, sent_vout = 1, sent_transactionId = ''txid-sweep'',
           sent_transaction = ''0200''\<rparr>)"
  by (simp add: sweepWallet_def demoClients_def andThen_def call_def getFeePerVbyte_def
      handleLndTransaction_def findVout_def outputMatches_def falsy_def)

text \<open>
  Claim C10. In every call of \<^verbatim>\<open>sendToAddress\<close> and of \<^verbatim>\<open>sweepWallet\<close>:
  with \<^verbatim>\<open>satPerVbyte\<close> undefined, 0 or NaN, a fee rate that is handed to LND is what
  \<^verbatim>\<open>estimateFee\<close> of the chain client returned; with any other
  \<^verbatim>\<open>satPerVbyte\<close>, a fee rate that is handed to LND is \<^verbatim>\<open>satPerVbyte\<close> itself,
  and no estimate is asked for. Once \<^verbatim>\<open>getInfo\<close> has answered (and, in the first
  case, \<^verbatim>\<open>estimateFee\<close>), exactly one fee rate is handed to LND, in the
  \<^verbatim>\<open>sendCoins\<close> or \<^verbatim>\<open>sweepWallet\<close> call.
\<close>

theorem lnd_fee_rate:
  "((satPerVbyte = None \<or> satPerVbyte = Some (Rate 0) \<or> satPerVbyte = Some NaN) \<longrightarrow>
      (\<forall>r \<in> set (feeRatesPassedToLnd (fst (sendToAddress c address amount satPerVbyte label))).
         estimateFee c = Inr r)
    \<and> (\<forall>r \<in> set (feeRatesPassedToLnd (fst (sweepWallet c address satPerVbyte label))).
         estimateFee c = Inr r)
    \<and> (getInfo c = Inr blockHeight \<longrightarrow>
          ChainEstimateFee \<in> set (fst (sendToAddress c address amount satPerVbyte label))
        \<and> ChainEstimateFee \<in> set (fst (sweepWallet c address satPerVbyte label)))
    \<and> (getInfo c = Inr blockHeight \<and> estimateFee c = Inr estimate \<longrightarrow>
          feeRatesPassedToLnd (fst (sendToAddress c address amount satPerVbyte label)) = [estimate]
        \<and> LndSendCoins address amount estimate label
            \<in> set (fst (sendToAddress c address amount satPerVbyte label))
        \<and> feeRatesPassedToLnd (fst (sweepWallet c address satPerVbyte label)) = [estimate]
        \<and> LndSweepWallet address estimate label
            \<in> set (fst (sweepWallet c address satPerVbyte label))))
   \<and> (satPerVbyte = Some (Rate v) \<and> v \<noteq> 0 \<longrightarrow>
      (\<forall>r \<in> set (feeRatesPassedToLnd (fst (sendToAddress c address amount satPerVbyte label))).
         r = Rate v)
    \<and> (\<forall>r \<in> set (feeRatesPassedToLnd (fst (sweepWallet c address satPerVbyte label))).
         r = Rate v)
    \<and> ChainEstimateFee \<notin> set (fst (sendToAddress c address amount satPerVbyte label))
    \<and> ChainEstimateFee \<notin> set (fst (sweepWallet c address satPerVbyte label))
    \<and> (getInfo c = Inr blockHeight \<longrightarrow>
          feeRatesPassedToLnd (fst (sendToAddress c address amount satPerVbyte label)) = [Rate v]
        \<and> LndSendCoins address amount (Rate v) label
            \<in> set (fst (sendToAddress c address amount satPerVbyte label))
        \<and> feeRatesPassedToLnd (fst (sweepWallet c address satPerVbyte label)) = [Rate v]
        \<and> LndSweepWallet address (Rate v) label
            \<in> set (fst (sweepWallet c address satPerVbyte label))))"
proof -
  note h = handleLndTransaction_calls
  have falsy: "(\<forall>r \<in> set (feeRatesPassedToLnd (fst (sendToAddress c address amount satPerVbyte label))).
         estimateFee c = Inr r)
    \<and> (\<forall>r \<in> set (feeRatesPassedToLnd (fst (sweepWallet c address satPerVbyte label))).
         estimateFee c = Inr r)
    \<and> (getInfo c = Inr blockHeight \<longrightarrow>
          ChainEstimateFee \<in> set (fst (sendToAddress c address amount satPerVbyte label))
        \<and> ChainEstimateFee \<in> set (fst (sweepWallet c address satPerVbyte label)))
    \<and> (getInfo c = Inr blockHeight \<and> estimateFee c = Inr estimate \<longrightarrow>
          feeRatesPassedToLnd (fst (sendToAddress c address amount satPerVbyte label)) = [estimate]
        \<and> LndSendCoins address amount estimate label
            \<in> set (fst (sendToAddress c address amount satPerVbyte label))
        \<and> feeRatesPassedToLnd (fst (sweepWallet c address satPerVbyte label)) = [estimate]
        \<and> LndSweepWallet address estimate label
            \<in> set (fst (sweepWallet c address satPerVbyte label)))"
    if "satPerVbyte = None \<or> satPerVbyte = Some (Rate 0) \<or> satPerVbyte = Some NaN"
    using getFeePerVbyte_falsy [OF that, of c]
    by (auto simp: sendToAddress_def sweepWallet_def fst_andThen h split: sum.splits)
  have truthy: "(\<forall>r \<in> set (feeRatesPassedToLnd (fst (sendToAddress c address amount satPerVbyte label))).
         r = Rate v)
    \<and> (\<forall>r \<in> set (feeRatesPassedToLnd (fst (sweepWallet c address satPerVbyte label))).
         r = Rate v)
    \<and> ChainEstimateFee \<notin> set (fst (sendToAddress c address amount satPerVbyte label))
    \<and> ChainEstimateFee \<notin> set (fst (sweepWallet c address satPerVbyte label))
    \<and> (getInfo c = Inr blockHeight \<longrightarrow>
          feeRatesPassedToLnd (fst (sendToAddress c address amount satPerVbyte label)) = [Rate v]
        \<and> LndSendCoins address amount (Rate v) label
            \<in> set (fst (sendToAddress c address amount satPerVbyte label))
        \<and> feeRatesPassedToLnd (fst (sweepWallet c address satPerVbyte label)) = [Rate v]
        \<and> LndSweepWallet address (Rate v) label
            \<in> set (fst (sweepWallet c address satPerVbyte label)))"
    if "satPerVbyte = Some (Rate v)" and "v \<noteq> 0"
    using that(1) getFeePerVbyte_truthy [OF that(2), of c]
    by (auto simp: sendToAddress_def sweepWallet_def fst_andThen h split: sum.splits)
  from falsy truthy show ?thesis
    by blast
qed

theorem lnd_fee_rate_witness:
  "getInfo demoClients = Inr 800 \<and> estimateFee demoClients = Inr (Rate 3)
   \<and> feeRatesPassedToLnd (fst (sendToAddress demoClients ''bcrt1dest'' 1000 None ''label'')) = [Rate 3]
   \<and> feeRatesPassedToLnd (fst (sendToAddress demoClients ''bcrt1dest'' 1000 (Some (Rate 0)) ''label'')) = [Rate 3]
   \<and> feeRatesPassedToLnd (fst (sweepWallet demoClients ''bcrt1dest'' (Some (Rate 0)) ''label'')) = [Rate 3]
   \<and> feeRatesPassedToLnd (fst (sendToAddress demoClients ''bcrt1dest'' 1000 (Some NaN) ''label'')) = [Rate 3]
   \<and> feeRatesPassedToLnd (fst (sweepWallet demoClients ''bcrt1dest'' (Some NaN) ''label'')) = [Rate 3]
   \<and> ChainEstimateFee \<in> set (fst (sendToAddress demoClients ''bcrt1dest'' 1000 (Some NaN) ''label''))
   \<and> feeRatesPassedToLnd (fst (sendToAddress demoClients ''bcrt1dest'' 1000 (Some (Rate 7)) ''label'')) = [Rate 7]
   \<and> feeRatesPassedToLnd (fst (sweepWallet demoClients ''bcrt1dest'' (Some (Rate 7)) ''label'')) = [Rate 7]
   \<and> ChainEstimateFee \<notin> set (fst (sendToAddress demoClients ''bcrt1dest'' 1000 (Some (Rate 7)) ''label''))"
proof -
  have g: "getInfo demoClients = Inr 800" and e: "estimateFee demoClients = Inr (Rate 3)"
    by (simp_all add: demoClients_def)
  have z: "(7::int) \<noteq> 0"
    by simp
  note T = lnd_fee_rate [where c = demoClients and blockHeight = 800
      and address = "''bcrt1dest''" and amount = 1000 and label = "''label''"]
  from T [where satPerVbyte = None and estimate = "Rate 3"] g e
  have a: "feeRatesPassedToLnd (fst (sendToAddress demoClients ''bcrt1dest'' 1000 None ''label'')) = [Rate 3]"
    by blast
  from T [where satPerVbyte = "Some (Rate 0)" and estimate = "Rate 3"] g e
  have b: "feeRatesPassedToLnd (fst (sendToAddress demoClients ''bcrt1dest'' 1000 (Some (Rate 0)) ''label'')) = [Rate 3]"
    and c: "feeRatesPassedToLnd (fst (sweepWallet demoClients ''bcrt1dest'' (Some (Rate 0)) ''label'')) = [Rate 3]"
    by blast+
  from T [where satPerVbyte = "Some NaN" and estimate = "Rate 3"] g e
  have k: "feeRatesPassedToLnd (fst (sendToAddress demoClients ''bcrt1dest'' 1000 (Some NaN) ''label'')) = [Rate 3]"
    and l: "feeRatesPassedToLnd (fst (sweepWallet demoClients ''bcrt1dest'' (Some NaN) ''label'')) = [Rate 3]"
    and m: "ChainEstimateFee \<in> set (fst (sendToAddress demoClients ''bcrt1dest'' 1000 (Some NaN) ''label''))"
    by blast+
  from T [where satPerVbyte = "Some (Rate 7)" and v = 7] g z
  have d: "feeRatesPassedToLnd (fst (sendToAddress demoClients ''bcrt1dest'' 1000 (Some (Rate 7)) ''label'')) = [Rate 7]"
    and f: "feeRatesPassedToLnd (fst (sweepWallet demoClients ''bcrt1dest'' (Some (Rate 7)) ''label'')) = [Rate 7]"
    and n: "ChainEstimateFee \<notin> set (fst (sendToAddress demoClients ''bcrt1dest'' 1000 (Some (Rate 7)) ''label''))"
    by blast+
  from g e a b c k l m d f n show ?thesis
    by blast
qed

text \<open>
  The claim as worded, with the estimate taken only when \<^verbatim>\<open>satPerVbyte\<close> is undefined
  or 0 and every other value used unchanged, fails at NaN: NaN is a number other than 0,
  and for it the estimate is asked for and handed to LND, by \<^verbatim>\<open>sendToAddress\<close> and by
  \<^verbatim>\<open>sweepWallet\<close> alike.
\<close>

theorem lnd_fee_rate_counterexample:
  "Some (NaN :: int js_number) \<noteq> None \<and> (NaN :: int js_number) \<noteq> Rate 0
   \<and> getFeePerVbyte demoClients (Some NaN) = ([ChainEstimateFee], Inr (Rate 3))
   \<and> feeRatesPassedToLnd (fst (sendToAddress demoClients ''bcrt1dest'' 1000 (Some NaN) ''label''))
       = [Rate 3]
   \<and> feeRatesPassedToLnd (fst (sendToAddress demoClients ''bcrt1dest'' 1000 (Some NaN) ''label''))
       \<noteq> [NaN]
   \<and> ChainEstimateFee \<in> set (fst (sendToAddress demoClients ''bcrt1dest'' 1000 (Some NaN) ''label''))
   \<and> feeRatesPassedToLnd (fst (sweepWallet demoClients ''bcrt1dest'' (Some NaN) ''label''))
       = [Rate 3]
   \<and> ChainEstimateFee \<in> set (fst (sweepWallet demoClients ''bcrt1dest'' (Some NaN) ''label''))"
  by (simp add: sendToAddress_demo_NaN sweepWallet_demo_NaN)
     (simp add: getFeePerVbyte_def falsy_def call_def demoClients_def)

section \<open>Properties of the reverse routing hints\<close>

subsection \<open>The example environment\<close>

lemma routingHintChanId_value: "routingHintChanId = 596385002596073472"
  by (simp add: routingHintChanId_def transactionToLndScid_def)

lemma demo_decodes: "decodesAddress demoEnv ''BTC'' ''bcrt1quser''"
  by (simp add: decodesAddress_def demoEnv_def)

lemma demo_fees_BTC: "minerFees demoEnv ''BTC'' = Some [0 \<mapsto> 428, 1 \<mapsto> 276]"
  by (simp add: demoEnv_def)

lemma demo_fees_LBTC: "minerFees demoEnv ''L-BTC'' = Some [0 \<mapsto> 45, 1 \<mapsto> 20]"
  by (simp add: demoEnv_def)

lemma demo_fee: "claimMinerFee demoEnv ''BTC'' 1 = Inr 276"
  by (simp add: claimMinerFee_def demo_fees_BTC)

lemma demo_fee_legacy: "claimMinerFee demoEnv ''BTC'' 0 = Inr 428"
  by (simp add: claimMinerFee_def demo_fees_BTC)

lemma demo_fee_LBTC: "claimMinerFee demoEnv ''L-BTC'' 1 = Inr 20"
  by (simp add: claimMinerFee_def demo_fees_LBTC)

lemma demo_signature_valid:
  "verifyAddressSignature demoEnv demoKey ''bcrt1quser'' (demoSignature demoKey) = Inr True"
  by (simp add: verifyAddressSignature_def demoSignature_def demoEnv_def demoVerifySchnorr_def
      demoKey_def utf8_def)

lemma demo_bad_signature_invalid:
  "verifyAddressSignature demoEnv demoKey ''bcrt1quser'' demoBadSignature = Inr False"
  by code_simp

lemma demo_bad_signature_invalid_garbage:
  "verifyAddressSignature demoEnv demoKey ''garbage'' demoBadSignature = Inr False"
  by code_simp

lemma demo_empty_signature_raises:
  "verifyAddressSignature demoEnv key address [] = Inl CryptoError"
  by (simp add: verifyAddressSignature_def demoEnv_def demoVerifySchnorr_def)


lemma demo_hex:
  "getHexString demoEnv demoKey =
     ''020707070707070707070707070707070707070707070707070707070707070707''"
  by code_simp

lemma getHints_demoArgs:
  "getHints demoEnv ''BTC'' demoArgs =
     Inr \<lparr>invoiceMemo = Some ''Send to BTC address'', invoiceDescriptionHash = None,
          receivedAmount = 499724, bip21Params = Some ''amount'',
          routingHint =
            Some [[\<lparr>nodeId = ''020707070707070707070707070707070707070707070707070707070707070707'',
                    chanId = 596385002596073472,
                    feeBaseMsat = 0, cltvExpiryDelta = 81,
                    feeProportionalMillionths = 21\<rparr>]]\<rparr>"
  using demo_decodes demo_fee demo_signature_valid demo_hex
  by (simp add: getHints_def demoArgs_def checkDescriptionHash_def encodeRoutingHint_def
      routingHintChanId_value) (simp add: demoEnv_def)

lemma getHints_demoArgsLegacy:
  "getHints demoEnv ''BTC'' demoArgsLegacy =
     Inr \<lparr>invoiceMemo = Some ''Send to BTC address'', invoiceDescriptionHash = None,
          receivedAmount = 499572, bip21Params = Some ''amount'',
          routingHint =
            Some [[\<lparr>nodeId = ''020707070707070707070707070707070707070707070707070707070707070707'',
                    chanId = 596385002596073472,
                    feeBaseMsat = 0, cltvExpiryDelta = 81,
                    feeProportionalMillionths = 21\<rparr>]]\<rparr>"
  using demo_decodes demo_fee_legacy demo_signature_valid demo_hex
  by (simp add: getHints_def demoArgsLegacy_def demoArgs_def checkDescriptionHash_def
      encodeRoutingHint_def routingHintChanId_value) (simp add: demoEnv_def)

lemma getHints_demoArgsPlain:
  "getHints demoEnv ''L-BTC'' demoArgsPlain =
     Inr \<lparr>invoiceMemo = Some ''Send to L-BTC address'', invoiceDescriptionHash = None,
          receivedAmount = 499980, bip21Params = None, routingHint = None\<rparr>"
  using demo_fee_LBTC
  by (simp add: getHints_def demoArgsPlain_def demoArgs_def checkDescriptionHash_def)
     (simp add: demoEnv_def)

lemma getHints_demoArgsBolt12:
  "getHints demoEnv ''BTC'' demoArgsBolt12 =
     Inr \<lparr>invoiceMemo = Some ''offer'', invoiceDescriptionHash = None,
          receivedAmount = 499724, bip21Params = Some ''amount'', routingHint = None\<rparr>"
  using demo_decodes demo_fee demo_signature_valid
  by (simp add: getHints_def demoArgsBolt12_def demoArgs_def verifyBolt12Invoice_def)
     (simp add: demoEnv_def)

lemma getHints_demoArgsShortHash:
  "getHints demoEnv ''BTC'' demoArgsShortHash = Inl INVALID_DESCRIPTION_HASH"
  by (simp add: getHints_def demoArgsShortHash_def demoArgs_def checkDescriptionHash_def)


lemma getHints_demoArgsBolt12Undecodable:
  "getHints demoEnv ''BTC'' demoArgsBolt12Undecodable = Inl INVALID_ADDRESS"
  using demo_fee
  by (simp add: getHints_def demoArgsBolt12Undecodable_def demoArgsBolt12_def demoArgs_def
      decodesAddress_def) (simp add: demoEnv_def)

subsection \<open>An error of the signature library\<close>

text \<open>
  When the library throws on the key or the signature, \<^verbatim>\<open>getHints\<close> fails with the
  library's error, for a BOLT12 request and for a BOLT11 request with a claim key alike:
  it neither returns nor fails with \<^verbatim>\<open>INVALID_ADDRESS_SIGNATURE\<close>.
\<close>

lemma verifyAddressSignature_errors:
  "verifyAddressSignature env key address signature = Inl e \<Longrightarrow> e = CryptoError"
  by (simp add: verifyAddressSignature_def split: option.splits)

lemma getHints_library_error:
  assumes "userAddress args = Some address"
    and "userAddressSignature args = Some signature"
    and "claimMinerFee env symbol (version args) = Inr claim"
    and "decodesAddress env symbol address"
    and "case invoice args of
           None \<Rightarrow> claimPublicKey args = Some key
                    \<and> (case descriptionHash args of None \<Rightarrow> True | Some h \<Rightarrow> length h = 32)
         | Some decoded \<Rightarrow> payee decoded = Some key"
    and "verifyAddressSignature env key address signature = Inl e"
  shows "getHints env symbol args = Inl CryptoError"
  using assms verifyAddressSignature_errors [OF assms(6)]
  by (auto simp: getHints_def Let_def checkDescriptionHash_def verifyBolt12Invoice_def
      encodeRoutingHint_def split: option.splits)

lemma getHints_demoArgsBolt12EmptySignature:
  "getHints demoEnv ''BTC'' demoArgsBolt12EmptySignature = Inl CryptoError"
  using demo_decodes demo_fee demo_empty_signature_raises [of demoKey "''bcrt1quser''"]
  by (simp add: getHints_def demoArgsBolt12EmptySignature_def demoArgsBolt12_def demoArgs_def
      verifyBolt12Invoice_def)

subsection \<open>The received amount\<close>

text \<open>
  Claim C9. Whenever \<^verbatim>\<open>getHints\<close> returns, the miner fees have an entry for the
  symbol of the sending currency, that entry has a claim fee for the swap version of the
  request, and the returned \<^verbatim>\<open>receivedAmount\<close> is the request's
  \<^verbatim>\<open>onchainAmount\<close> minus that fee.
\<close>

theorem getHints_receivedAmount:
  assumes "getHints env symbol args = Inr hints"
  shows "\<exists>fees claim. minerFees env symbol = Some fees \<and> fees (version args) = Some claim
          \<and> receivedAmount hints = onchainAmount args - claim"
  using assms
  by (auto simp: getHints_def claimMinerFee_def Let_def
      split: sum.splits option.splits if_splits prod.splits)

text \<open>
  In the example environment the fee differs with the currency and with the version, and
  so does the received amount of the same onchain amount of 500000.
\<close>

theorem getHints_receivedAmount_witness:
  "minerFees demoEnv ''BTC'' = Some [0 \<mapsto> 428, 1 \<mapsto> 276]
   \<and> minerFees demoEnv ''L-BTC'' = Some [0 \<mapsto> 45, 1 \<mapsto> 20]
   \<and> version demoArgs = 1 \<and> onchainAmount demoArgs = 500000
   \<and> (\<exists>hints. getHints demoEnv ''BTC'' demoArgs = Inr hints \<and> receivedAmount hints = 499724)
   \<and> version demoArgsLegacy = 0 \<and> onchainAmount demoArgsLegacy = 500000
   \<and> (\<exists>hints. getHints demoEnv ''BTC'' demoArgsLegacy = Inr hints
         \<and> receivedAmount hints = 499572)
   \<and> version demoArgsPlain = 1 \<and> onchainAmount demoArgsPlain = 500000
   \<and> (\<exists>hints. getHints demoEnv ''L-BTC'' demoArgsPlain = Inr hints
         \<and> receivedAmount hints = 499980)"
proof -
  have v1: "version demoArgs = 1" and o1: "onchainAmount demoArgs = 500000"
    by (simp_all add: demoArgs_def)
  have v2: "version demoArgsLegacy = 0" and o2: "onchainAmount demoArgsLegacy = 500000"
    by (simp_all add: demoArgsLegacy_def demoArgs_def)
  have v3: "version demoArgsPlain = 1" and o3: "onchainAmount demoArgsPlain = 500000"
    by (simp_all add: demoArgsPlain_def demoArgs_def)
  have a: "\<exists>hints. getHints demoEnv ''BTC'' demoArgs = Inr hints \<and> receivedAmount hints = 499724"
  proof -
    obtain hints where h: "getHints demoEnv ''BTC'' demoArgs = Inr hints"
      using getHints_demoArgs by blast
    from getHints_receivedAmount [OF h]
    obtain fees claim where f: "minerFees demoEnv ''BTC'' = Some fees"
      and c: "fees (version demoArgs) = Some claim"
      and r: "receivedAmount hints = onchainAmount demoArgs - claim"
      by blast
    from f c have "claim = 276"
      by (auto simp: demo_fees_BTC v1)
    with r o1 have "receivedAmount hints = 499724"
      by simp
    with h show ?thesis
      by blast
  qed
  have b: "\<exists>hints. getHints demoEnv ''BTC'' demoArgsLegacy = Inr hints
         \<and> receivedAmount hints = 499572"
  proof -
    obtain hints where h: "getHints demoEnv ''BTC'' demoArgsLegacy = Inr hints"
      using getHints_demoArgsLegacy by blast
    from getHints_receivedAmount [OF h]
    obtain fees claim where f: "minerFees demoEnv ''BTC'' = Some fees"
      and c: "fees (version demoArgsLegacy) = Some claim"
      and r: "receivedAmount hints = onchainAmount demoArgsLegacy - claim"
      by blast
    from f c have "claim = 428"
      by (auto simp: demo_fees_BTC v2)
    with r o2 have "receivedAmount hints = 499572"
      by simp
    with h show ?thesis
      by blast
  qed
  have c: "\<exists>hints. getHints demoEnv ''L-BTC'' demoArgsPlain = Inr hints
         \<and> receivedAmount hints = 499980"
  proof -
    obtain hints where h: "getHints demoEnv ''L-BTC'' demoArgsPlain = Inr hints"
      using getHints_demoArgsPlain by blast
    from getHints_receivedAmount [OF h]
    obtain fees claim where f: "minerFees demoEnv ''L-BTC'' = Some fees"
      and c: "fees (version demoArgsPlain) = Some claim"
      and r: "receivedAmount hints = onchainAmount demoArgsPlain - claim"
      by blast
    from f c have "claim = 20"
      by (auto simp: demo_fees_LBTC v3)
    with r o3 have "receivedAmount hints = 499980"
      by simp
    with h show ?thesis
      by blast
  qed
  from demo_fees_BTC demo_fees_LBTC v1 o1 a v2 o2 b v3 o3 c show ?thesis
    by blast
qed

subsection \<open>The description hash\<close>

text \<open>
  Claim C7. \<^verbatim>\<open>checkDescriptionHash\<close> accepts an absent hash, throws
  \<^verbatim>\<open>INVALID_DESCRIPTION_HASH\<close> on every buffer whose length is not 32, and returns
  every buffer of 32 bytes. It is the first thing \<^verbatim>\<open>getHints\<close> does for a BOLT11
  request: with a supplied hash of another length \<^verbatim>\<open>getHints\<close> fails with that error,
  and when \<^verbatim>\<open>getHints\<close> returns, the hash it returns is the supplied one, of 32 bytes
  if there is one.
\<close>

theorem checkDescriptionHash_length:
  "checkDescriptionHash None = Inr None
   \<and> (length h \<noteq> 32 \<longrightarrow> checkDescriptionHash (Some h) = Inl INVALID_DESCRIPTION_HASH)
   \<and> (length h = 32 \<longrightarrow> checkDescriptionHash (Some h) = Inr (Some h))
   \<and> (invoice args = None \<and> descriptionHash args = Some h \<and> length h \<noteq> 32
        \<longrightarrow> getHints env symbol args = Inl INVALID_DESCRIPTION_HASH)
   \<and> (invoice args = None \<and> getHints env symbol args = Inr hints
        \<longrightarrow> invoiceDescriptionHash hints = descriptionHash args
            \<and> (case descriptionHash args of None \<Rightarrow> True | Some h' \<Rightarrow> length h' = 32))"
proof -
  have a: "checkDescriptionHash None = Inr None"
    by (simp add: checkDescriptionHash_def)
  have b: "length h \<noteq> 32 \<longrightarrow> checkDescriptionHash (Some h) = Inl INVALID_DESCRIPTION_HASH"
    by (simp add: checkDescriptionHash_def)
  have c: "length h = 32 \<longrightarrow> checkDescriptionHash (Some h) = Inr (Some h)"
    by (simp add: checkDescriptionHash_def)
  have d: "invoice args = None \<and> descriptionHash args = Some h \<and> length h \<noteq> 32
        \<longrightarrow> getHints env symbol args = Inl INVALID_DESCRIPTION_HASH"
    by (simp add: getHints_def checkDescriptionHash_def)
  have e: "invoice args = None \<and> getHints env symbol args = Inr hints
        \<longrightarrow> invoiceDescriptionHash hints = descriptionHash args
            \<and> (case descriptionHash args of None \<Rightarrow> True | Some h' \<Rightarrow> length h' = 32)"
    by (auto simp: getHints_def checkDescriptionHash_def Let_def
        split: sum.splits option.splits if_splits prod.splits)
  from a b c d e show ?thesis
    by blast
qed

theorem checkDescriptionHash_length_witness:
  "length [0 :: 8 word] \<noteq> 32
   \<and> checkDescriptionHash (Some [0]) = Inl INVALID_DESCRIPTION_HASH
   \<and> invoice demoArgsShortHash = None \<and> descriptionHash demoArgsShortHash = Some [0]
   \<and> getHints demoEnv ''BTC'' demoArgsShortHash = Inl INVALID_DESCRIPTION_HASH
   \<and> length (replicate 32 (7 :: 8 word)) = 32
   \<and> checkDescriptionHash (Some (replicate 32 7)) = Inr (Some (replicate 32 7))"
proof -
  have l1: "length [0 :: 8 word] \<noteq> 32" and l32: "length (replicate 32 (7 :: 8 word)) = 32"
    by simp_all
  have i: "invoice demoArgsShortHash = None" and d: "descriptionHash demoArgsShortHash = Some [0]"
    by (simp_all add: demoArgsShortHash_def demoArgs_def)
  note T = checkDescriptionHash_length [where h = "[0]" and args = demoArgsShortHash
      and env = demoEnv and symbol = "''BTC''"]
  note U = checkDescriptionHash_length [where h = "replicate 32 7"]
  from T l1 have a: "checkDescriptionHash (Some [0]) = Inl INVALID_DESCRIPTION_HASH"
    by blast
  from T l1 i d have b: "getHints demoEnv ''BTC'' demoArgsShortHash = Inl INVALID_DESCRIPTION_HASH"
    by blast
  from U l32 have c: "checkDescriptionHash (Some (replicate 32 7)) = Inr (Some (replicate 32 7))"
    by blast
  from l1 l32 i d a b c show ?thesis
    by blast
qed

subsection \<open>The synthetic routing hint\<close>

text \<open>The block height, transaction index and output index can be read back from the packed id.\<close>

lemma routingHintChanId_unpacked:
  "drop_bit 40 (transactionToLndScid 542409 1308 0) = 542409
   \<and> take_bit 24 (drop_bit 16 (transactionToLndScid 542409 1308 0)) = 1308
   \<and> take_bit 16 (transactionToLndScid 542409 1308 0) = 0"
  by (simp add: transactionToLndScid_def)

text \<open>
  Claim C2, as amended. For a BOLT11 request with a claim public key, a user address that
  the sending currency's wallet decodes and a signature of that address that verifies under
  the claim key, whose description hash is absent or 32 bytes long and for whose currency
  and version a claim miner fee is configured, \<^verbatim>\<open>getHints\<close> returns one routing hint
  of one hop: the claim key as node, the short channel id packed from block 542409,
  transaction 1308, output 0, a base fee of 0, a proportional fee of 21 and a CLTV delta of
  81. For a BOLT12 request \<^verbatim>\<open>getHints\<close> never returns a routing hint.
\<close>

theorem bolt11_routing_hint:
  "(invoice args = None \<and> claimPublicKey args = Some key
      \<and> userAddress args = Some address \<and> userAddressSignature args = Some signature
      \<and> decodesAddress env symbol address
      \<and> verifyAddressSignature env key address signature = Inr True
      \<and> (case descriptionHash args of None \<Rightarrow> True | Some h \<Rightarrow> length h = 32)
      \<and> claimMinerFee env symbol (version args) = Inr claim
    \<longrightarrow> (\<exists>hints. getHints env symbol args = Inr hints
          \<and> routingHint hints =
              Some [[\<lparr>nodeId = getHexString env key,
                      chanId = transactionToLndScid 542409 1308 0,
                      feeBaseMsat = 0, cltvExpiryDelta = 81,
                      feeProportionalMillionths = 21\<rparr>]]))
   \<and> (invoice args \<noteq> None \<and> getHints env symbol args = Inr hints' \<longrightarrow> routingHint hints' = None)
   \<and> drop_bit 40 (transactionToLndScid 542409 1308 0) = 542409
   \<and> take_bit 24 (drop_bit 16 (transactionToLndScid 542409 1308 0)) = 1308
   \<and> take_bit 16 (transactionToLndScid 542409 1308 0) = 0"
proof -
  have a: "invoice args = None \<and> claimPublicKey args = Some key
      \<and> userAddress args = Some address \<and> userAddressSignature args = Some signature
      \<and> decodesAddress env symbol address
      \<and> verifyAddressSignature env key address signature = Inr True
      \<and> (case descriptionHash args of None \<Rightarrow> True | Some h \<Rightarrow> length h = 32)
      \<and> claimMinerFee env symbol (version args) = Inr claim
    \<longrightarrow> (\<exists>hints. getHints env symbol args = Inr hints
          \<and> routingHint hints =
              Some [[\<lparr>nodeId = getHexString env key,
                      chanId = transactionToLndScid 542409 1308 0,
                      feeBaseMsat = 0, cltvExpiryDelta = 81,
                      feeProportionalMillionths = 21\<rparr>]])"
    by (cases "descriptionHash args")
       (simp_all add: getHints_def checkDescriptionHash_def encodeRoutingHint_def
          routingHintChanId_def Let_def)
  have b: "invoice args \<noteq> None \<and> getHints env symbol args = Inr hints' \<longrightarrow> routingHint hints' = None"
    by (auto simp: getHints_def Let_def verifyBolt12Invoice_def
        split: sum.splits option.splits if_splits prod.splits)
  from a b routingHintChanId_unpacked show ?thesis
    by blast
qed

theorem bolt11_routing_hint_witness:
  "invoice demoArgs = None \<and> claimPublicKey demoArgs = Some demoKey
   \<and> decodesAddress demoEnv ''BTC'' ''bcrt1quser''
   \<and> verifyAddressSignature demoEnv demoKey ''bcrt1quser'' (demoSignature demoKey) = Inr True
   \<and> (\<exists>hints. getHints demoEnv ''BTC'' demoArgs = Inr hints
        \<and> routingHint hints =
            Some [[\<lparr>nodeId = ''020707070707070707070707070707070707070707070707070707070707070707'',
                    chanId = 596385002596073472,
                    feeBaseMsat = 0, cltvExpiryDelta = 81,
                    feeProportionalMillionths = 21\<rparr>]])
   \<and> invoice demoArgsBolt12 \<noteq> None
   \<and> (\<exists>hints. getHints demoEnv ''BTC'' demoArgsBolt12 = Inr hints \<and> routingHint hints = None)"
proof -
  have i: "invoice demoArgs = None" and k: "claimPublicKey demoArgs = Some demoKey"
    and u: "userAddress demoArgs = Some ''bcrt1quser''"
    and s: "userAddressSignature demoArgs = Some (demoSignature demoKey)"
    and d: "(case descriptionHash demoArgs of None \<Rightarrow> True | Some h \<Rightarrow> length h = 32)"
    and v: "version demoArgs = 1"
    by (simp_all add: demoArgs_def)
  have f: "claimMinerFee demoEnv ''BTC'' (version demoArgs) = Inr 276"
    by (simp only: v demo_fee)
  have c: "transactionToLndScid 542409 1308 0 = 596385002596073472"
    using routingHintChanId_value by (simp only: routingHintChanId_def)
  have i12: "invoice demoArgsBolt12 \<noteq> None"
    by (simp add: demoArgsBolt12_def)
  note T = bolt11_routing_hint [where args = demoArgs and key = demoKey
      and address = "''bcrt1quser''" and signature = "demoSignature demoKey"
      and env = demoEnv and symbol = "''BTC''" and claim = 276]
  from T i k u s d f demo_decodes demo_signature_valid
  have "\<exists>hints. getHints demoEnv ''BTC'' demoArgs = Inr hints
        \<and> routingHint hints =
            Some [[\<lparr>nodeId = getHexString demoEnv demoKey,
                    chanId = transactionToLndScid 542409 1308 0,
                    feeBaseMsat = 0, cltvExpiryDelta = 81,
                    feeProportionalMillionths = 21\<rparr>]]"
    by blast
  then have a: "\<exists>hints. getHints demoEnv ''BTC'' demoArgs = Inr hints
        \<and> routingHint hints =
            Some [[\<lparr>nodeId = ''020707070707070707070707070707070707070707070707070707070707070707'',
                    chanId = 596385002596073472,
                    feeBaseMsat = 0, cltvExpiryDelta = 81,
                    feeProportionalMillionths = 21\<rparr>]]"
    by (simp only: demo_hex c)
  let ?hints12 = "\<lparr>invoiceMemo = Some ''offer'', invoiceDescriptionHash = None,
          receivedAmount = 499724, bip21Params = Some ''amount'', routingHint = None\<rparr>"
  have g12: "getHints demoEnv ''BTC'' demoArgsBolt12 = Inr ?hints12"
    by (rule getHints_demoArgsBolt12)
  from bolt11_routing_hint [where args = demoArgsBolt12 and env = demoEnv
      and symbol = "''BTC''" and hints' = ?hints12] i12 g12
  have "routingHint ?hints12 = None"
    by blast
  with g12
  have b: "\<exists>hints. getHints demoEnv ''BTC'' demoArgsBolt12 = Inr hints \<and> routingHint hints = None"
    by blast
  from i k demo_decodes demo_signature_valid a i12 b show ?thesis
    by blast
qed

text \<open>
  Claim C2 as stated fails on a BOLT11 request that has the claim key, the decodable address
  and the valid signature, and a description hash of one byte: \<^verbatim>\<open>getHints\<close> throws
  before it comes to the routing hint.
\<close>

theorem bolt11_routing_hint_counterexample:
  "invoice demoArgsShortHash = None
   \<and> claimPublicKey demoArgsShortHash = Some demoKey
   \<and> userAddress demoArgsShortHash = Some ''bcrt1quser''
   \<and> userAddressSignature demoArgsShortHash = Some (demoSignature demoKey)
   \<and> decodesAddress demoEnv ''BTC'' ''bcrt1quser''
   \<and> verifyAddressSignature demoEnv demoKey ''bcrt1quser'' (demoSignature demoKey) = Inr True
   \<and> getHints demoEnv ''BTC'' demoArgsShortHash = Inl INVALID_DESCRIPTION_HASH"
  using demo_decodes demo_signature_valid getHints_demoArgsShortHash
  by (simp add: demoArgsShortHash_def demoArgs_def)

subsection \<open>The BIP21 parameters\<close>




subsection \<open>BOLT12: the signature of the address\<close>

text \<open>
  Claim C8, as amended. Take a BOLT12 request that supplies a user address and an address
  signature. Whenever \<^verbatim>\<open>getHints\<close> returns on it, there is no routing hint, and the
  invoice has a payee key under which the verification of the signature has returned true.
  Whenever it fails with \<^verbatim>\<open>INVALID_ADDRESS_SIGNATURE\<close>, the invoice has a payee key
  under which the verification has returned false. If a claim miner fee is configured and
  the sending currency's wallet decodes the address, then: without a payee key the call
  fails with \<^verbatim>\<open>PAYEE_MISSING_FROM_INVOICE\<close>; with a payee key under which the
  verification returns false it fails with \<^verbatim>\<open>INVALID_ADDRESS_SIGNATURE\<close>; with a
  payee key under which the verification returns true it returns, without a routing hint.
  An address that the wallet does not decode makes the call fail with
  \<^verbatim>\<open>INVALID_ADDRESS\<close>, whatever the signature.
\<close>

theorem bolt12_address_signature:
  assumes "invoice args = Some decoded"
    and "userAddress args = Some address"
    and "userAddressSignature args = Some signature"
  shows "(getHints env symbol args = Inr hints
           \<longrightarrow> routingHint hints = None
               \<and> (\<exists>key. payee decoded = Some key
                      \<and> verifyAddressSignature env key address signature = Inr True))
       \<and> (getHints env symbol args = Inl INVALID_ADDRESS_SIGNATURE
           \<longrightarrow> (\<exists>key. payee decoded = Some key
                      \<and> verifyAddressSignature env key address signature = Inr False))
       \<and> (claimMinerFee env symbol (version args) = Inr claim
            \<and> decodesAddress env symbol address
          \<longrightarrow> (case payee decoded of
                 None \<Rightarrow> getHints env symbol args = Inl PAYEE_MISSING_FROM_INVOICE
               | Some key \<Rightarrow>
                   (verifyAddressSignature env key address signature = Inr False
                      \<longrightarrow> getHints env symbol args = Inl INVALID_ADDRESS_SIGNATURE)
                   \<and> (verifyAddressSignature env key address signature = Inr True
                      \<longrightarrow> (\<exists>hints'. getHints env symbol args = Inr hints'
                                   \<and> routingHint hints' = None))))
       \<and> (claimMinerFee env symbol (version args) = Inr claim
            \<and> \<not> decodesAddress env symbol address
          \<longrightarrow> getHints env symbol args = Inl INVALID_ADDRESS)"
proof -
  have a: "getHints env symbol args = Inr hints
           \<longrightarrow> routingHint hints = None
               \<and> (\<exists>key. payee decoded = Some key
                      \<and> verifyAddressSignature env key address signature = Inr True)"
    using assms
    by (auto simp: getHints_def Let_def verifyBolt12Invoice_def
        split: sum.splits option.splits if_splits prod.splits)
  have b: "getHints env symbol args = Inl INVALID_ADDRESS_SIGNATURE
           \<longrightarrow> (\<exists>key. payee decoded = Some key
                      \<and> verifyAddressSignature env key address signature = Inr False)"
    using assms
    by (auto simp: getHints_def Let_def verifyBolt12Invoice_def claimMinerFee_def
        dest: verifyAddressSignature_errors
        split: sum.splits option.splits if_splits prod.splits)
  have c: "claimMinerFee env symbol (version args) = Inr claim
            \<and> decodesAddress env symbol address
          \<longrightarrow> (case payee decoded of
                 None \<Rightarrow> getHints env symbol args = Inl PAYEE_MISSING_FROM_INVOICE
               | Some key \<Rightarrow>
                   (verifyAddressSignature env key address signature = Inr False
                      \<longrightarrow> getHints env symbol args = Inl INVALID_ADDRESS_SIGNATURE)
                   \<and> (verifyAddressSignature env key address signature = Inr True
                      \<longrightarrow> (\<exists>hints'. getHints env symbol args = Inr hints'
                                   \<and> routingHint hints' = None)))"
    using assms
    by (auto simp: getHints_def Let_def verifyBolt12Invoice_def split: option.splits)
  have d: "claimMinerFee env symbol (version args) = Inr claim
            \<and> \<not> decodesAddress env symbol address
          \<longrightarrow> getHints env symbol args = Inl INVALID_ADDRESS"
    using assms
    by (auto simp: getHints_def Let_def)
  from a b c d show ?thesis
    by blast
qed

theorem bolt12_address_signature_witness:
  "invoice demoArgsBolt12BadSignature = Some \<lparr>description = Some ''offer'', payee = Some demoKey\<rparr>
   \<and> userAddress demoArgsBolt12BadSignature = Some ''bcrt1quser''
   \<and> userAddressSignature demoArgsBolt12BadSignature = Some demoBadSignature
   \<and> decodesAddress demoEnv ''BTC'' ''bcrt1quser''
   \<and> verifyAddressSignature demoEnv demoKey ''bcrt1quser'' demoBadSignature = Inr False
   \<and> getHints demoEnv ''BTC'' demoArgsBolt12BadSignature = Inl INVALID_ADDRESS_SIGNATURE
   \<and> invoice demoArgsBolt12NoPayee = Some \<lparr>description = Some ''offer'', payee = None\<rparr>
   \<and> getHints demoEnv ''BTC'' demoArgsBolt12NoPayee = Inl PAYEE_MISSING_FROM_INVOICE
   \<and> verifyAddressSignature demoEnv demoKey ''bcrt1quser'' (demoSignature demoKey) = Inr True
   \<and> (\<exists>hints. getHints demoEnv ''BTC'' demoArgsBolt12 = Inr hints \<and> routingHint hints = None)"
proof -
  let ?d = "\<lparr>description = Some ''offer'', payee = Some demoKey\<rparr>"
  let ?n = "\<lparr>description = Some ''offer'', payee = None\<rparr>"
  have i1: "invoice demoArgsBolt12BadSignature = Some ?d"
    and u1: "userAddress demoArgsBolt12BadSignature = Some ''bcrt1quser''"
    and s1: "userAddressSignature demoArgsBolt12BadSignature = Some demoBadSignature"
    and v1: "version demoArgsBolt12BadSignature = 1"
    by (simp_all add: demoArgsBolt12BadSignature_def demoArgsBolt12_def demoArgs_def)
  have i2: "invoice demoArgsBolt12NoPayee = Some ?n"
    and u2: "userAddress demoArgsBolt12NoPayee = Some ''bcrt1quser''"
    and s2: "userAddressSignature demoArgsBolt12NoPayee = Some (demoSignature demoKey)"
    and v2: "version demoArgsBolt12NoPayee = 1"
    by (simp_all add: demoArgsBolt12NoPayee_def demoArgsBolt12_def demoArgs_def)
  have i3: "invoice demoArgsBolt12 = Some ?d"
    and u3: "userAddress demoArgsBolt12 = Some ''bcrt1quser''"
    and s3: "userAddressSignature demoArgsBolt12 = Some (demoSignature demoKey)"
    and v3: "version demoArgsBolt12 = 1"
    by (simp_all add: demoArgsBolt12_def demoArgs_def)
  have f1: "claimMinerFee demoEnv ''BTC'' (version demoArgsBolt12BadSignature) = Inr 276"
    by (simp only: v1 demo_fee)
  have f2: "claimMinerFee demoEnv ''BTC'' (version demoArgsBolt12NoPayee) = Inr 276"
    by (simp only: v2 demo_fee)
  have f3: "claimMinerFee demoEnv ''BTC'' (version demoArgsBolt12) = Inr 276"
    by (simp only: v3 demo_fee)
  note bad = demo_bad_signature_invalid
  note C = conjunct2 [THEN conjunct2, THEN conjunct1]
  from bolt12_address_signature [OF i1 u1 s1, where env = demoEnv and symbol = "''BTC''"
      and claim = 276, THEN C] f1 demo_decodes bad
  have a: "getHints demoEnv ''BTC'' demoArgsBolt12BadSignature = Inl INVALID_ADDRESS_SIGNATURE"
    by simp
  from bolt12_address_signature [OF i2 u2 s2, where env = demoEnv and symbol = "''BTC''"
      and claim = 276, THEN C] f2 demo_decodes
  have b: "getHints demoEnv ''BTC'' demoArgsBolt12NoPayee = Inl PAYEE_MISSING_FROM_INVOICE"
    by simp
  from bolt12_address_signature [OF i3 u3 s3, where env = demoEnv and symbol = "''BTC''"
      and claim = 276, THEN C] f3 demo_decodes demo_signature_valid
  have c: "\<exists>hints. getHints demoEnv ''BTC'' demoArgsBolt12 = Inr hints \<and> routingHint hints = None"
    by simp
  from i1 u1 s1 demo_decodes bad a i2 b demo_signature_valid c show ?thesis
    by blast
qed

text \<open>
  Claim C8 as stated fails on a BOLT12 request whose address the wallet does not decode: the
  verification of the signature under the payee's key returns false, and the call fails with
  \<^verbatim>\<open>INVALID_ADDRESS\<close>, before any signature is looked at.
\<close>

theorem bolt12_address_signature_counterexample:
  "invoice demoArgsBolt12Undecodable = Some \<lparr>description = Some ''offer'', payee = Some demoKey\<rparr>
   \<and> userAddress demoArgsBolt12Undecodable = Some ''garbage''
   \<and> userAddressSignature demoArgsBolt12Undecodable = Some demoBadSignature
   \<and> verifyAddressSignature demoEnv demoKey ''garbage'' demoBadSignature = Inr False
   \<and> getHints demoEnv ''BTC'' demoArgsBolt12Undecodable = Inl INVALID_ADDRESS"
  using demo_bad_signature_invalid_garbage getHints_demoArgsBolt12Undecodable
  by (simp add: demoArgsBolt12Undecodable_def demoArgsBolt12_def demoArgs_def)

section \<open>Properties of the channel nursery\<close>

subsection \<open>The retries of a settlement\<close>

lemma pass_settled:
  "settleChannelWrapperPass True i t m =
     (m(i := None), [SettleChannelCalled i, RetriesDeleted i], False)"
  by (simp add: settleChannelWrapperPass_def)

lemma pass_failed_fresh:
  "m i = None \<Longrightarrow> settleChannelWrapperPass False i t m =
     (m(i \<mapsto> 1), [SettleChannelCalled i, RetriesSet i 1, RetryScheduled i (t * 1)], True)"
  by (simp add: settleChannelWrapperPass_def maxSettleRetries_def)

lemma pass_failed_again:
  "m i = Some r \<Longrightarrow> 2 * r \<le> 4 \<Longrightarrow> settleChannelWrapperPass False i t m =
     (m(i \<mapsto> 2 * r),
      [SettleChannelCalled i, RetriesSet i (2 * r), RetryScheduled i (t * (2 * r))], True)"
  by (simp add: settleChannelWrapperPass_def maxSettleRetries_def Let_def)

lemma pass_failed_last:
  "m i = Some r \<Longrightarrow> 4 < 2 * r \<Longrightarrow> settleChannelWrapperPass False i t m =
     (m(i := None), [SettleChannelCalled i, RetriesDeleted i], False)"
  by (simp add: settleChannelWrapperPass_def maxSettleRetries_def)

text \<open>A pass calls \<^verbatim>\<open>settleChannel\<close> once and does not touch the lock.\<close>

lemma pass_events:
  assumes "settleChannelWrapperPass s i t m = (m', events, scheduled)"
  shows "settleAttempts events = 1"
    and "underLock True (events @ rest) = underLock True rest"
  using assms
  by (auto simp: settleChannelWrapperPass_def settleAttempts_def Let_def split: if_splits)

lemma settleAttempts_Nil [simp]: "settleAttempts [] = 0"
  by (simp add: settleAttempts_def)

lemma settleAttempts_Cons [simp]:
  "settleAttempts (e # es) =
     (case e of SettleChannelCalled i \<Rightarrow> Suc (settleAttempts es) | _ \<Rightarrow> settleAttempts es)"
  by (simp add: settleAttempts_def split: settle_event.splits)

lemma settleAttempts_append [simp]:
  "settleAttempts (es @ es') = settleAttempts es + settleAttempts es'"
  by (simp add: settleAttempts_def)

lemma snd_settleRetry_Cons:
  "snd (settleRetry (s # later) i t m) =
     (case settleChannelWrapperPass s i t m of
        (m', events, scheduled) \<Rightarrow>
          if scheduled
          then LockAcquired channelSettleLock # events
                 @ LockReleased channelSettleLock # snd (settleRetry later i t m')
          else LockAcquired channelSettleLock # events @ [LockReleased channelSettleLock])"
  by (simp split: prod.splits)

lemma snd_settleChannelWrapper_Cons:
  "snd (settleChannelWrapper (s # later) i t m) =
     (case settleChannelWrapperPass s i t m of
        (m', events, scheduled) \<Rightarrow>
          if scheduled then events @ snd (settleRetry later i t m') else events)"
  by (simp add: settleChannelWrapper_def split: prod.splits)

text \<open>Four failures in a row, for a swap without an entry: the whole run.\<close>

lemma run_four_failures:
  "settleChannelWrapper (False # False # False # False # later) i t (m(i := None)) =
     (m(i := None),
      [SettleChannelCalled i, RetriesSet i 1, RetryScheduled i (t * 1),
       LockAcquired channelSettleLock,
       SettleChannelCalled i, RetriesSet i 2, RetryScheduled i (t * 2),
       LockReleased channelSettleLock,
       LockAcquired channelSettleLock,
       SettleChannelCalled i, RetriesSet i 4, RetryScheduled i (t * 4),
       LockReleased channelSettleLock,
       LockAcquired channelSettleLock,
       SettleChannelCalled i, RetriesDeleted i,
       LockReleased channelSettleLock])"
  by (simp add: settleChannelWrapper_def pass_failed_fresh pass_failed_again [where r = 1]
      pass_failed_again [where r = 2] pass_failed_last [where r = 4])

text \<open>The retries that are left, by the value of the counter.\<close>

lemma retries_from_4:
  "m i = Some 4 \<Longrightarrow> settleAttempts (snd (settleRetry outcomes i t m)) \<le> 1"
  by (cases outcomes; cases "hd outcomes")
     (auto simp: pass_settled pass_failed_last [where r = 4])

lemma retries_from_2:
  assumes m: "m i = Some 2"
  shows "settleAttempts (snd (settleRetry outcomes i t m)) \<le> 2"
proof (cases outcomes)
  case Nil
  then show ?thesis by simp
next
  case (Cons s later)
  show ?thesis
  proof (cases s)
    case True
    with Cons show ?thesis by (simp add: pass_settled)
  next
    case False
    have "settleAttempts (snd (settleRetry later i t (m(i \<mapsto> 4)))) \<le> 1"
      by (rule retries_from_4) simp
    with Cons False m show ?thesis
      using pass_failed_again [where r = 2 and m = m and i = i and t = t]
      by (simp add: snd_settleRetry_Cons del: settleRetry.simps)
  qed
qed

lemma retries_from_1:
  assumes m: "m i = Some 1"
  shows "settleAttempts (snd (settleRetry outcomes i t m)) \<le> 3"
proof (cases outcomes)
  case Nil
  then show ?thesis by simp
next
  case (Cons s later)
  show ?thesis
  proof (cases s)
    case True
    with Cons show ?thesis by (simp add: pass_settled)
  next
    case False
    have "settleAttempts (snd (settleRetry later i t (m(i \<mapsto> 2)))) \<le> 2"
      by (rule retries_from_2) simp
    with Cons False m show ?thesis
      using pass_failed_again [where r = 1 and m = m and i = i and t = t]
      by (simp add: snd_settleRetry_Cons del: settleRetry.simps)
  qed
qed

lemma attempts_from_fresh:
  assumes m: "m i = None"
  shows "settleAttempts (snd (settleChannelWrapper outcomes i t m)) \<le> 4"
proof (cases outcomes)
  case Nil
  then show ?thesis by (simp add: settleChannelWrapper_def)
next
  case (Cons s later)
  show ?thesis
  proof (cases s)
    case True
    with Cons show ?thesis by (simp add: snd_settleChannelWrapper_Cons pass_settled)
  next
    case False
    have "settleAttempts (snd (settleRetry later i t (m(i \<mapsto> 1)))) \<le> 3"
      by (rule retries_from_1) simp
    with Cons False m show ?thesis
      using pass_failed_fresh [where m = m and i = i and t = t]
      by (simp add: snd_settleChannelWrapper_Cons)
  qed
qed

text \<open>Every retry runs under the lock.\<close>

lemma underLock_settleRetry: "underLock False (snd (settleRetry outcomes i t m))"
proof (induction outcomes arbitrary: m)
  case Nil
  show ?case by simp
next
  case (Cons s later)
  obtain m' events scheduled where p: "settleChannelWrapperPass s i t m = (m', events, scheduled)"
    by (cases "settleChannelWrapperPass s i t m") auto
  show ?case
    using Cons.IH [of m'] pass_events(2) [OF p]
    by (simp add: snd_settleRetry_Cons p del: settleRetry.simps)
qed

text \<open>
  A run is the first attempt followed by the retries: the first attempt does not touch the
  lock, the retries are under it.
\<close>

lemma settleChannelWrapper_split:
  "\<exists>first retries.
     snd (settleChannelWrapper outcomes i t m) = first @ retries
     \<and> settleAttempts first \<le> 1
     \<and> underLock False retries"
proof (cases outcomes)
  case Nil
  then show ?thesis
    by (simp add: settleChannelWrapper_def)
next
  case (Cons s later)
  obtain m' events scheduled where p: "settleChannelWrapperPass s i t m = (m', events, scheduled)"
    by (cases "settleChannelWrapperPass s i t m") auto
  show ?thesis
  proof (cases scheduled)
    case True
    have "snd (settleChannelWrapper outcomes i t m) = events @ snd (settleRetry later i t m')"
      using Cons p True by (simp add: snd_settleChannelWrapper_Cons)
    moreover have "settleAttempts events \<le> 1"
      using pass_events(1) [OF p] by simp
    ultimately show ?thesis
      using underLock_settleRetry by blast
  next
    case False
    have "snd (settleChannelWrapper outcomes i t m) = events @ []"
      using Cons p False by (simp add: snd_settleChannelWrapper_Cons)
    moreover have "settleAttempts events \<le> 1"
      using pass_events(1) [OF p] by simp
    moreover have "underLock False []"
      by simp
    ultimately show ?thesis
      by blast
  qed
qed

text \<open>
  Claim C4. For a swap whose settlement fails four times in a row, starting without a
  retry counter: the counter of that swap is set to 1, 2 and 4, the retries are scheduled
  after 1, 2 and 4 times the retry timeout, four attempts are made, and after the fourth the
  counter is deleted and nothing more is scheduled, whatever later attempts would return.
  Whatever the attempts return, at most four are made, and every attempt after the first,
  that is every retry, is made between taking and releasing the lock
  \<^verbatim>\<open>channelSettle\<close>.
\<close>

theorem settle_retry_schedule:
  "(\<exists>events.
      settleChannelWrapper (False # False # False # False # later) swapId retryTimeout
          (settleRetries(swapId := None))
        = (settleRetries(swapId := None), events)
      \<and> retryCounterValues events = [1, 2, 4]
      \<and> retryDelays events = [retryTimeout * 1, retryTimeout * 2, retryTimeout * 4]
      \<and> settleAttempts events = 4)
   \<and> settleAttempts (snd (settleChannelWrapper outcomes swapId retryTimeout
          (settleRetries(swapId := None)))) \<le> 4
   \<and> (\<exists>first retries.
         snd (settleChannelWrapper outcomes swapId retryTimeout (settleRetries(swapId := None)))
           = first @ retries
         \<and> settleAttempts first \<le> 1
         \<and> underLock False retries)"
proof -
  have a: "\<exists>events.
      settleChannelWrapper (False # False # False # False # later) swapId retryTimeout
          (settleRetries(swapId := None))
        = (settleRetries(swapId := None), events)
      \<and> retryCounterValues events = [1, 2, 4]
      \<and> retryDelays events = [retryTimeout * 1, retryTimeout * 2, retryTimeout * 4]
      \<and> settleAttempts events = 4"
    by (simp only: run_four_failures)
       (simp add: retryCounterValues_def retryDelays_def List.map_filter_def)
  have b: "settleAttempts (snd (settleChannelWrapper outcomes swapId retryTimeout
          (settleRetries(swapId := None)))) \<le> 4"
    by (rule attempts_from_fresh) simp
  from a b settleChannelWrapper_split show ?thesis
    by blast
qed

theorem settle_retry_schedule_witness:
  "retryCounterValues (snd (settleChannelWrapper [False, False, False, False] ''id123'' 10
       (Map.empty(''id123'' := None)))) = [1, 2, 4]
   \<and> retryDelays (snd (settleChannelWrapper [False, False, False, False] ''id123'' 10
       (Map.empty(''id123'' := None)))) = [10, 20, 40]
   \<and> settleAttempts (snd (settleChannelWrapper [False, False, False, False] ''id123'' 10
       (Map.empty(''id123'' := None)))) = 4
   \<and> fst (settleChannelWrapper [False, False, False, False] ''id123'' 10
       (Map.empty(''id123'' := None))) ''id123'' = None"
proof -
  from settle_retry_schedule [where later = "[]" and swapId = "''id123''" and retryTimeout = 10
      and settleRetries = Map.empty, THEN conjunct1]
  obtain events where
    r: "settleChannelWrapper [False, False, False, False] ''id123'' 10
          (Map.empty(''id123'' := None)) = (Map.empty(''id123'' := None), events)"
    and c: "retryCounterValues events = [1, 2, 4]"
    and d: "retryDelays events = [10 * 1, 10 * 2, 10 * 4]"
    and n: "settleAttempts events = 4"
    by blast
  from d have d': "retryDelays events = [10, 20, 40]"
    by simp
  from c d' n show ?thesis
    by (simp only: r fst_conv snd_conv) simp
qed

subsection \<open>The errors of opening a channel\<close>

text \<open>The error messages that the test of the nursery lets LND throw.\<close>

lemma openChannel_test_errors:
  "classifyOpenChannelError
     ''2 UNKNOWN: channels cannot be created before the wallet is fully synced'' = NodeSyncing"
  "classifyOpenChannelError
     ''2 UNKNOWN: received funding error from 0380e1dbcae8ca0df4eb8dca5b7262808c68c9a4eb662fa599db3e6fbaad95e97b: chan_id=4c63f4f69b447ff1c3bb2d729b0ae9349c6687a65540edcf15abb1c936dd24d0, err=Synchronizing blockchain'' = NodeSyncing"
  "classifyOpenChannelError
     ''2 UNKNOWN: peer 02d4c41c75f79c52d31014f0665f327c47f92505217d9a8b75019374a6ebd04ce0 is not online'' = PeerNotOnline"
  "classifyOpenChannelError ''some other error'' = OtherError"
  by code_simp+

text \<open>
  Claim C5. A failed \<^verbatim>\<open>openChannel\<close> is classified by its message. A message that
  holds "wallet is fully synced" or "Synchronizing blockchain" is followed by a wait and a
  retry; any other message that holds "peer " and later " is not online" by one
  \<^verbatim>\<open>connectByPublicKey\<close> and one retry; both leave the status of the ChannelCreation
  as it is. Every other message ends the attempt: the ChannelCreation is set to
  \<^verbatim>\<open>Abandoned\<close>, and nothing is retried. The four messages of the test fall into
  these classes as the test expects.
\<close>

theorem openChannel_error_classification:
  "(isSyncingError e \<longrightarrow>
      openChannelFailed e status = ([WaitBackoff, RetryOpenChannel], status))
   \<and> (\<not> isSyncingError e \<and> isPeerNotOnlineError e \<longrightarrow>
      openChannelFailed e status = ([ConnectByPublicKey, RetryOpenChannel], status))
   \<and> (\<not> isSyncingError e \<and> \<not> isPeerNotOnlineError e \<longrightarrow>
      openChannelFailed e status = ([SetAbandoned], Abandoned))
   \<and> classifyOpenChannelError
       ''2 UNKNOWN: channels cannot be created before the wallet is fully synced'' = NodeSyncing
   \<and> classifyOpenChannelError
       ''2 UNKNOWN: received funding error from 0380e1dbcae8ca0df4eb8dca5b7262808c68c9a4eb662fa599db3e6fbaad95e97b: chan_id=4c63f4f69b447ff1c3bb2d729b0ae9349c6687a65540edcf15abb1c936dd24d0, err=Synchronizing blockchain'' = NodeSyncing
   \<and> classifyOpenChannelError
       ''2 UNKNOWN: peer 02d4c41c75f79c52d31014f0665f327c47f92505217d9a8b75019374a6ebd04ce0 is not online'' = PeerNotOnline
   \<and> classifyOpenChannelError ''some other error'' = OtherError"
proof -
  have a: "isSyncingError e \<longrightarrow>
      openChannelFailed e status = ([WaitBackoff, RetryOpenChannel], status)"
    by (simp add: openChannelFailed_def classifyOpenChannelError_def)
  have b: "\<not> isSyncingError e \<and> isPeerNotOnlineError e \<longrightarrow>
      openChannelFailed e status = ([ConnectByPublicKey, RetryOpenChannel], status)"
    by (simp add: openChannelFailed_def classifyOpenChannelError_def)
  have c: "\<not> isSyncingError e \<and> \<not> isPeerNotOnlineError e \<longrightarrow>
      openChannelFailed e status = ([SetAbandoned], Abandoned)"
    by (simp add: openChannelFailed_def classifyOpenChannelError_def)
  from a b c openChannel_test_errors show ?thesis
    by blast
qed

lemma other_error_class:
  "\<not> isSyncingError ''some other error''" "\<not> isPeerNotOnlineError ''some other error''"
  by code_simp+

lemma peer_error_class:
  "\<not> isSyncingError ''2 UNKNOWN: peer 02d4 is not online''"
  "isPeerNotOnlineError ''2 UNKNOWN: peer 02d4 is not online''"
  by code_simp+

lemma syncing_error_class: "isSyncingError ''err=Synchronizing blockchain''"
  by code_simp

theorem openChannel_error_classification_witness:
  "isSyncingError ''err=Synchronizing blockchain''
   \<and> openChannelFailed ''err=Synchronizing blockchain'' Attempted
       = ([WaitBackoff, RetryOpenChannel], Attempted)
   \<and> isPeerNotOnlineError ''2 UNKNOWN: peer 02d4 is not online''
   \<and> openChannelFailed ''2 UNKNOWN: peer 02d4 is not online'' Attempted
       = ([ConnectByPublicKey, RetryOpenChannel], Attempted)
   \<and> openChannelFailed ''some other error'' Attempted = ([SetAbandoned], Abandoned)"
proof -
  from openChannel_error_classification [where e = "''err=Synchronizing blockchain''"
      and status = Attempted] syncing_error_class
  have a: "openChannelFailed ''err=Synchronizing blockchain'' Attempted
       = ([WaitBackoff, RetryOpenChannel], Attempted)"
    by blast
  from openChannel_error_classification [where e = "''2 UNKNOWN: peer 02d4 is not online''"
      and status = Attempted] peer_error_class
  have b: "openChannelFailed ''2 UNKNOWN: peer 02d4 is not online'' Attempted
       = ([ConnectByPublicKey, RetryOpenChannel], Attempted)"
    by blast
  from openChannel_error_classification [where e = "''some other error''"
      and status = Attempted] other_error_class
  have c: "openChannelFailed ''some other error'' Attempted = ([SetAbandoned], Abandoned)"
    by blast
  from syncing_error_class peer_error_class(2) a b c show ?thesis
    by blast
qed

subsection \<open>Settling an invoice that is paid already\<close>

text \<open>The two error messages that the test of the nursery lets the payment throw.\<close>

lemma settle_test_errors:
  "str_includes ''could not pay invoice: invoice is already paid'' ''invoice is already paid''"
  "\<not> str_includes ''some other error'' ''invoice is already paid''"
  by code_simp+

text \<open>
  Claim C6. When the payment of a settlement attempt throws a message that holds "invoice
  is already paid", \<^verbatim>\<open>settleChannel\<close> returns true and sets the ChannelCreation to
  \<^verbatim>\<open>Settled\<close>, having invoked the payment once; on any other message it returns
  false, leaves the status of the ChannelCreation as it was and does not set it to
  \<^verbatim>\<open>Settled\<close>. A payment that succeeds settles as well.
\<close>

theorem settleChannel_already_paid:
  "settleChannel None status = (True, Settled, [SettleSwap, SetSettled])
   \<and> (str_includes e ''invoice is already paid'' \<longrightarrow>
        settleChannel (Some e) status = (True, Settled, [SettleSwap, SetSettled]))
   \<and> (\<not> str_includes e ''invoice is already paid'' \<longrightarrow>
        settleChannel (Some e) status = (False, status, [SettleSwap]))
   \<and> settleChannel (Some ''could not pay invoice: invoice is already paid'') status
       = (True, Settled, [SettleSwap, SetSettled])
   \<and> settleChannel (Some ''some other error'') status = (False, status, [SettleSwap])"
  using settle_test_errors by (simp add: settleChannel_def)

theorem settleChannel_already_paid_witness:
  "str_includes ''could not pay invoice: invoice is already paid'' ''invoice is already paid''
   \<and> settleChannel (Some ''could not pay invoice: invoice is already paid'') Created
       = (True, Settled, [SettleSwap, SetSettled])
   \<and> \<not> str_includes ''some other error'' ''invoice is already paid''
   \<and> settleChannel (Some ''some other error'') Created = (False, Created, [SettleSwap])"
proof -
  note T = settleChannel_already_paid [where status = Created]
  from T [where e = "''could not pay invoice: invoice is already paid''"] settle_test_errors(1)
  have a: "settleChannel (Some ''could not pay invoice: invoice is already paid'') Created
       = (True, Settled, [SettleSwap, SetSettled])"
    by blast
  from T [where e = "''some other error''"] settle_test_errors(2)
  have b: "settleChannel (Some ''some other error'') Created = (False, Created, [SettleSwap])"
    by blast
  from settle_test_errors a b show ?thesis
    by blast
qed

end
